theory Spec2Isabelle
  imports Complex_Main "HOL-Library.Word" "HOL-Library.AList"
begin

section \<open>The interactive viewpoint session of run\_rotate.py\<close>

text \<open>
  The script keeps one global dictionary \<open>state\<close> and one callback object per key.
  Each key press calls \<open>Callbacks.__call__\<close>, which first runs the branch of the key
  (lines 68-135) and then the frame pipeline (lines 137-231). The embedding passes the
  dictionary explicitly: a call takes the state and returns the state it leaves behind,
  also when it raises, since a mutation made before a \<open>raise\<close> stays in the global.

  Numbers. The angles are Python floats that start at 90.0 and 0.0 and only ever change
  by 5, so they hold integer values (exactly, below 2^53) and are modelled as \<open>int\<close>;
  on them \<open>int(...)\<close> is the identity and \<open>%\<close> is the floored \<open>mod\<close> of HOL. The radius
  starts at 7 and changes by 0.05; it is modelled as an exact real number, as are image
  coordinates, so rounding of binary floating point is outside the model.
\<close>

subsection \<open>Data\<close>

type_synonym vec3 = "real \<times> real \<times> real"
type_synonym point2 = "real \<times> real"
type_synonym matrix = "real list list"
type_synonym tensor = "real list list list"
type_synonym pixel = "8 word \<times> 8 word \<times> 8 word"
type_synonym image = "pixel list list"
type_synonym float_image = "vec3 list list"
type_synonym kpoints_planes = "point2 list list"
type_synonym visibility_oracle = "int \<times> int \<times> int \<Rightarrow> bool list"

datatype error =
    NotImplementedError
  | KeyError string
  | IndexError
  | ValueError string

record mesh =
  vertices :: "vec3 list"
  vertex_colors :: "vec3 list"
  vertex_normals :: "vec3 list"
  triangles :: "(nat \<times> nat \<times> nat) list"

text \<open>One record of the texture dataset, with the keys the pipeline reads.\<close>

record texture_example =
  planes :: "tensor list"
  src_kpoints_planes :: kpoints_planes
  src_vs :: "bool list"
  src_central :: tensor
  src_image :: tensor

text \<open>
  The global \<open>state\<close>. The keys that \<open>run\<close> does not set when it builds the dictionary
  (\<open>texture_src\<close>, \<open>kpoints_3d\<close>, \<open>normal_vertex_colors\<close>, \<open>dump_image\<close>) are options:
  reading an absent key raises \<open>KeyError\<close>. \<open>geometries\<close> is the \<open>Geometries\<close> dict.
\<close>

record state =
  pascal_class :: string
  angle_y :: int
  angle_z :: int
  cad_idx :: int
  dataset_index :: int
  dump_id :: int
  focal :: int
  geometries :: "(string \<times> mesh) list"
  radius :: real
  net :: "tensor \<Rightarrow> tensor"
  dataset :: "texture_example list"
  vis_oracle :: visibility_oracle
  texture_src :: "texture_example option"
  kpoints_3d :: "(string \<times> vec3) list option"
  normal_vertex_colors :: "vec3 list option"
  dump_image :: "image option"

text \<open>The parsed command line (\<open>args\<close>), as far as the callbacks read it.\<close>

record args =
  arg_pascal_class :: string
  CAD_root :: string
  dump_dir :: string
  LAB :: bool
  verbose :: bool

text \<open>
  Functions of the other modules of the repository and of the libraries, which are not
  part of run\_rotate.py. They are parameters of the model, taken as pure functions.
\<close>

record env =
  load_yaml_file :: "string \<Rightarrow> (string \<times> vec3) list"
  read_triangle_mesh :: "string \<Rightarrow> mesh"
  compute_vertex_normals :: "mesh \<Rightarrow> mesh"
  intrinsic_matrix :: "int \<Rightarrow> real \<Rightarrow> real \<Rightarrow> matrix"
  pascal_vpoint_to_extrinsics :: "int \<Rightarrow> int \<Rightarrow> real \<Rightarrow> matrix"
  project_points :: "vec3 \<Rightarrow> matrix \<Rightarrow> matrix \<Rightarrow> point2"
  cvtColor_RGB2LAB :: "image \<Rightarrow> image"
  get_planes :: "nat \<times> nat \<Rightarrow> (string \<times> point2) list \<Rightarrow> int \<times> int \<Rightarrow> int
                  \<Rightarrow> string \<Rightarrow> visibility_oracle \<Rightarrow> kpoints_planes \<times> bool list"
  warp_unwarp_planes :: "image list \<Rightarrow> kpoints_planes \<Rightarrow> kpoints_planes \<Rightarrow> bool list
                  \<Rightarrow> bool list \<Rightarrow> string \<Rightarrow> image list \<times> image list"
  planes_to_torch :: "image list \<Rightarrow> bool \<Rightarrow> tensor list"
  normalize_to_tensor :: "image \<Rightarrow> tensor"
  to_image :: "tensor \<Rightarrow> bool \<Rightarrow> image"

text \<open>
  The Open3D visualizer handed to the callback. \<open>get_render_option()\<close> and
  \<open>get_view_control()\<close> are falsy on a visualizer without a window (the three calls
  \<open>run\<close> makes itself); \<open>capture\<close> is \<open>capture_screen_float_buffer\<close> after \<open>align_view\<close>
  has set the focal length and the extrinsic matrix.
\<close>

record vis =
  has_render_option :: bool
  has_view_control :: bool
  capture :: "int \<Rightarrow> matrix \<Rightarrow> (string \<times> mesh) list \<Rightarrow> float_image"

text \<open>What a call does to the outside world, in the order it does it.\<close>

datatype effect =
    Mkdir string
  | Imwrite string image
  | PrintSaved string
  | PrintCamera int int real
  | AlignView int matrix
  | Imshow image

text \<open>The camera values of a frame (lines 141-154).\<close>

record camera =
  cam_angle_y :: int
  cam_radius :: real
  cam_az :: int
  cam_el :: int
  cam_intrinsic :: matrix
  cam_extrinsic :: matrix

text \<open>The images of a frame (lines 164-227).\<close>

record composite =
  object_mask :: "bool list list"
  kpoints_2d :: "(string \<times> point2) list"
  net_raw :: image
  net_masked :: image
  sketch_img :: image
  central_img :: image
  source_img :: image
  out_image :: image

text \<open>
  How a call ends when it does not raise: at the early \<open>return\<close> of line 158, with the
  camera computed and nothing drawn, or at the end of the pipeline.
\<close>

datatype outcome =
    NoRenderer camera
  | Rendered camera composite

subsection \<open>Constants and library functions\<close>

definition img_h :: nat where "img_h = 128"
definition img_w :: nat where "img_w = 128"

definition py_ord :: "char \<Rightarrow> int" where
  "py_ord c = of_char c"

text \<open>\<open>np.clip(a, a_min, a_max)\<close> is \<open>minimum(maximum(a, a_min), a_max)\<close>; the bounds are not
  compared with each other.\<close>

definition np_clip :: "'a::linorder \<Rightarrow> 'a \<Rightarrow> 'a \<Rightarrow> 'a" where
  "np_clip a a_min a_max = min (max a a_min) a_max"

text \<open>\<open>int(x)\<close> on a float truncates towards zero.\<close>

definition py_int :: "real \<Rightarrow> int" where
  "py_int x = (if 0 \<le> x then \<lfloor>x\<rfloor> else \<lceil>x\<rceil>)"

definition digit_char :: "nat \<Rightarrow> char" where
  "digit_char d = ''0123456789'' ! d"

fun digits10 :: "nat \<Rightarrow> string" where
  "digits10 n = (if n < 10 then [digit_char n] else digits10 (n div 10) @ [digit_char (n mod 10)])"

declare digits10.simps [simp del]

definition zfill :: "nat \<Rightarrow> string \<Rightarrow> string" where
  "zfill w ds = replicate (w - length ds) (CHR ''0'') @ ds"

text \<open>The format \<open>{n:03d}\<close>: zero padding to width 3, the sign counted in the width.\<close>

definition format_03d :: "int \<Rightarrow> string" where
  "format_03d n = (if 0 \<le> n then zfill 3 (digits10 (nat n))
                   else CHR ''-'' # zfill 2 (digits10 (nat (- n))))"

definition path_join :: "string \<Rightarrow> string \<Rightarrow> string" where
  "path_join d name = d @ ''/'' @ name"

text \<open>
  Modelled from the spec: \<open>TextureDatasetWithNormal.__getitem__\<close> is in
  datasets/dataset\_texture.py, which is not among the sources. The spec calls the dataset
  an indexable collection of records (with a fast-load mode that holds a prefix of 100
  records); it is modelled as a Python list, whose indexing raises \<open>IndexError\<close> outside
  the range and counts a negative index from the end.
\<close>

definition dataset_getitem :: "texture_example list \<Rightarrow> int \<Rightarrow> error + texture_example" where
  "dataset_getitem ds i =
     (if i < - int (length ds) \<or> int (length ds) \<le> i then Inl IndexError
      else Inr (ds ! nat (if i < 0 then i + int (length ds) else i)))"

subsection \<open>The branch of the key (lines 68-135)\<close>

text \<open>
  A branch returns the effects it had, the exception it raised if any, and the state it
  leaves. \<open>dump_frame\<close> is the branch of \<open>X\<close>: the file name is computed from the state's
  own angles (not the clipped ones), and \<open>state['dump_image']\<close> is read when the image is
  written, after the directory was made.
\<close>

definition dump_frame :: "args \<Rightarrow> state \<Rightarrow> effect list \<times> error option \<times> state" where
  "dump_frame A s =
     (let pascal_az = (angle_z s + 90) mod 360;
          pascal_el = 90 - angle_y s;
          rad = py_int (radius s);
          d_id = dump_id s;
          id_str = format_03d d_id @ ''_el_'' @ format_03d pascal_el @ ''_az_''
                     @ format_03d pascal_az @ ''_rad_'' @ format_03d rad;
          dump_image_path = path_join (dump_dir A) (id_str @ ''.png'')
      in case dump_image s of
           None \<Rightarrow> ([Mkdir (dump_dir A)], Some (KeyError ''dump_image''), s)
         | Some img \<Rightarrow>
             ([Mkdir (dump_dir A), Imwrite dump_image_path img, PrintSaved dump_image_path],
              None, s\<lparr>dump_id := d_id + 1\<rparr>))"

text \<open>The branch of the space key: the record is read first, the index moves after.\<close>

definition next_example :: "state \<Rightarrow> effect list \<times> error option \<times> state" where
  "next_example s =
     (case dataset_getitem (dataset s) (dataset_index s) of
        Inl e \<Rightarrow> ([], Some e, s)
      | Inr ex \<Rightarrow> ([], None, s\<lparr>texture_src := Some ex, dataset_index := dataset_index s + 1\<rparr>))"

text \<open>
  The branch of \<open>N\<close>. \<open>model_path\<close> is \<open>CAD_root / 'pascal_<class>_cad_<idx:03d>.ply'\<close>, and
  the YAML file has the same parent and stem. The mesh read is stored under \<open>'mesh'\<close> when
  the key is new; otherwise its four arrays are copied into the mesh already there.
\<close>

definition next_model :: "env \<Rightarrow> args \<Rightarrow> state \<Rightarrow> effect list \<times> error option \<times> state" where
  "next_model E A s =
     (let c1 = cad_idx s + 1;
          cad = (if c1 = 10 then 0 else c1);
          stem = ''pascal_'' @ pascal_class s @ ''_cad_'' @ format_03d cad;
          model_path = path_join (CAD_root A) (stem @ ''.ply'');
          yaml_file = path_join (CAD_root A) (stem @ ''.yaml'');
          kps = load_yaml_file E yaml_file;
          m = compute_vertex_normals E (read_triangle_mesh E model_path);
          nvc = map (\<lambda>(x, y, z). ((x + 1) / 2, (y + 1) / 2, (z + 1) / 2)) (vertex_normals m);
          geoms = (case map_of (geometries s) ''mesh'' of
                     None \<Rightarrow> AList.update ''mesh'' m (geometries s)
                   | Some old \<Rightarrow>
                       AList.update ''mesh''
                         (old\<lparr>vertices := vertices m, vertex_colors := vertex_colors m,
                              vertex_normals := vertex_normals m, triangles := triangles m\<rparr>)
                         (geometries s))
      in ([], None,
          s\<lparr>cad_idx := cad, kpoints_3d := Some kps, normal_vertex_colors := Some nvc,
            geometries := geoms\<rparr>))"

definition key_branch :: "env \<Rightarrow> args \<Rightarrow> int \<Rightarrow> state \<Rightarrow> effect list \<times> error option \<times> state" where
  "key_branch E A key s =
     (if key = 0 then ([], None, s)
      else if key = py_ord CHR ''X'' then dump_frame A s
      else if key = py_ord CHR ''R'' then ([], None, s)
      else if key = py_ord CHR ''F'' then ([], None, s\<lparr>angle_y := angle_y s + 5\<rparr>)
      else if key = py_ord CHR ''D'' then ([], None, s\<lparr>angle_y := angle_y s - 5\<rparr>)
      else if key = py_ord CHR ''S'' then ([], None, s\<lparr>angle_z := angle_z s + 5\<rparr>)
      else if key = py_ord CHR ''A'' then ([], None, s\<lparr>angle_z := angle_z s - 5\<rparr>)
      else if key = py_ord CHR ''H'' then ([], None, s\<lparr>radius := radius s + 5 / 100\<rparr>)
      else if key = py_ord CHR ''G'' then ([], None, s\<lparr>radius := radius s - 5 / 100\<rparr>)
      else if key = py_ord CHR '' '' then next_example s
      else if key = py_ord CHR ''N'' then next_model E A s
      else ([], Some NotImplementedError, s))"

subsection \<open>The frame pipeline (lines 137-231)\<close>

definition move_camera :: "env \<Rightarrow> state \<Rightarrow> camera" where
  "move_camera E s =
     (let angle_y' = np_clip (angle_y s) (- 90) 90;
          radius' = np_clip (radius s) 0 (radius s);
          pascal_az = (angle_z s + 90) mod 360;
          pascal_el = 90 - angle_y'
      in \<lparr>cam_angle_y = angle_y', cam_radius = radius', cam_az = pascal_az, cam_el = pascal_el,
          cam_intrinsic = intrinsic_matrix E (focal s) (of_nat img_w / 2) (of_nat img_h / 2),
          cam_extrinsic = pascal_vpoint_to_extrinsics E pascal_az pascal_el radius'\<rparr>)"

text \<open>\<open>(src_normal * 255).astype(np.uint8)\<close>, on a buffer whose values lie in [0, 1].\<close>

definition float_to_uint8 :: "real \<Rightarrow> 8 word" where
  "float_to_uint8 x = word_of_int (py_int (x * 255))"

definition to_uint8_image :: "float_image \<Rightarrow> image" where
  "to_uint8_image buf =
     map (map (\<lambda>(r, g, b). (float_to_uint8 r, float_to_uint8 g, float_to_uint8 b))) buf"

text \<open>\<open>np.all(src_normal == 0, axis=-1)\<close>: the pixels that are exactly the background.\<close>

definition background_mask :: "image \<Rightarrow> bool list list" where
  "background_mask img = map (map (\<lambda>(r, g, b). r = 0 \<and> g = 0 \<and> b = 0)) img"

text \<open>One keypoint of the loop of lines 176-181: project, divide by \<open>(img_w, img_h)\<close>, clip.\<close>

definition kpoints_2d_step :: "env \<Rightarrow> matrix \<Rightarrow> matrix \<Rightarrow> vec3 \<Rightarrow> point2" where
  "kpoints_2d_step E K Rt k_val =
     (let (u, v) = project_points E k_val K Rt;
          (u', v') = (u / of_nat img_w, v / of_nat img_h)
      in (np_clip u' (- 1) 1, np_clip v' (- 1) 1))"

fun project_kpoints ::
  "env \<Rightarrow> matrix \<Rightarrow> matrix \<Rightarrow> (string \<times> vec3) list \<Rightarrow> (string \<times> point2) list
     \<Rightarrow> (string \<times> point2) list" where
  "project_kpoints E K Rt [] acc = acc"
| "project_kpoints E K Rt ((k_name, k_val) # rest) acc =
     project_kpoints E K Rt rest (AList.update k_name (kpoints_2d_step E K Rt k_val) acc)"

text \<open>
  \<open>net_image[object_mask] = 255\<close>: a boolean mask must have the shape of the image's first
  two axes, otherwise numpy raises \<open>IndexError\<close>.
\<close>

definition same_shape :: "bool list list \<Rightarrow> image \<Rightarrow> bool" where
  "same_shape m img = list_all2 (\<lambda>mr ir. length mr = length ir) m img"

definition white :: pixel where
  "white = (255, 255, 255)"

definition mask_artifacts :: "bool list list \<Rightarrow> image \<Rightarrow> error + image" where
  "mask_artifacts m img =
     (if same_shape m img
      then Inr (map2 (\<lambda>mr ir. map2 (\<lambda>b p. if b then white else p) mr ir) m img)
      else Inl IndexError)"

text \<open>\<open>np.concatenate(imgs, axis=1)\<close>: the images must have the same number of rows.\<close>

definition hconcat2 :: "image \<Rightarrow> image \<Rightarrow> image" where
  "hconcat2 a b = map2 (\<lambda>ra rb. ra @ rb) a b"

definition np_concatenate_axis1 :: "image list \<Rightarrow> error + image" where
  "np_concatenate_axis1 imgs =
     (case imgs of
        [] \<Rightarrow> Inl (ValueError ''need at least one array to concatenate'')
      | a # rest \<Rightarrow>
          if list_all (\<lambda>b. length b = length a) rest then Inr (foldl hconcat2 a rest)
          else Inl (ValueError ''all the input array dimensions must match''))"

text \<open>
  Lines 164-227, from the captured buffer to the tiled frame. A tensor is its list of
  channels, so \<open>torch.cat(..., dim=1)\<close> of the batched tensors appends the channel lists and
  the reshape of the warped planes concatenates theirs.
\<close>

definition composite_frame ::
  "env \<Rightarrow> args \<Rightarrow> state \<Rightarrow> camera \<Rightarrow> float_image \<Rightarrow> error + composite" where
  "composite_frame E A s cam buf =
     (let src_normal_rgb = to_uint8_image buf;
          mask = background_mask src_normal_rgb
      in if \<not> LAB A then Inl (ValueError ''Released model was trained in LAB space.'')
         else
           let src_normal = cvtColor_RGB2LAB E src_normal_rgb
           in case kpoints_3d s of
                None \<Rightarrow> Inl (KeyError ''kpoints_3d'')
              | Some kps \<Rightarrow>
                  let k2d = project_kpoints E (cam_intrinsic cam) (cam_extrinsic cam) kps [];
                      (dst_kpoints_planes, dst_visibilities) =
                         get_planes E (img_h, img_w) k2d (cam_az cam, cam_el cam) (cad_idx s)
                           (arg_pascal_class A) (vis_oracle s)
                  in case texture_src s of
                       None \<Rightarrow> Inl (KeyError ''texture_src'')
                     | Some tex \<Rightarrow>
                         let src_planes = map (\<lambda>i. to_image E i (LAB A)) (planes tex);
                             (planes_warped, planes_unwarped) =
                                warp_unwarp_planes E src_planes (src_kpoints_planes tex)
                                  dst_kpoints_planes (src_vs tex) dst_visibilities
                                  (arg_pascal_class A);
                             planes_t = concat (planes_to_torch E planes_warped (LAB A));
                             src_sketch_input = normalize_to_tensor E src_normal;
                             gen_in_src = src_sketch_input @ src_central tex @ planes_t;
                             net_image = to_image E (net s gen_in_src) (LAB A)
                         in case mask_artifacts mask net_image of
                              Inl e \<Rightarrow> Inl e
                            | Inr masked \<Rightarrow>
                                let sk = to_image E src_sketch_input (LAB A);
                                    ce = to_image E (src_central tex) (LAB A);
                                    so = to_image E (src_image tex) (LAB A)
                                in case np_concatenate_axis1 [sk, ce, masked, so] of
                                     Inl e \<Rightarrow> Inl e
                                   | Inr out \<Rightarrow>
                                       Inr \<lparr>object_mask = mask, kpoints_2d = k2d,
                                            net_raw = net_image, net_masked = masked,
                                            sketch_img = sk, central_img = ce,
                                            source_img = so, out_image = out\<rparr>)"

text \<open>
  The whole pipeline. Line 138 reads \<open>state['normal_vertex_colors']\<close> and then
  \<open>state['geometries']['mesh']\<close>; the camera is computed before the visualizer is asked
  for its render option and view control; \<open>state['dump_image']\<close> is assigned at the end.
\<close>

definition render :: "env \<Rightarrow> args \<Rightarrow> vis \<Rightarrow> state \<Rightarrow> effect list \<times> (error + outcome) \<times> state" where
  "render E A V s =
     (case normal_vertex_colors s of
        None \<Rightarrow> ([], Inl (KeyError ''normal_vertex_colors''), s)
      | Some nvc \<Rightarrow>
          (case map_of (geometries s) ''mesh'' of
             None \<Rightarrow> ([], Inl (KeyError ''mesh''), s)
           | Some m \<Rightarrow>
               let s1 = s\<lparr>geometries :=
                            AList.update ''mesh'' (m\<lparr>vertex_colors := nvc\<rparr>) (geometries s)\<rparr>;
                   cam = move_camera E s1;
                   pr = (if verbose A
                         then [PrintCamera (cam_az cam) (cam_angle_y cam) (cam_radius cam)]
                         else [])
               in if \<not> has_render_option V \<or> \<not> has_view_control V
                  then (pr, Inr (NoRenderer cam), s1)
                  else
                    let av = AlignView (focal s1) (cam_extrinsic cam);
                        buf = capture V (focal s1) (cam_extrinsic cam) (geometries s1)
                    in case composite_frame E A s1 cam buf of
                         Inl e \<Rightarrow> (pr @ [av], Inl e, s1)
                       | Inr c \<Rightarrow>
                           (pr @ [av, Imshow (out_image c)], Inr (Rendered cam c),
                            s1\<lparr>dump_image := Some (out_image c)\<rparr>)))"

subsection \<open>A call, and calls in sequence\<close>

definition Callbacks_call ::
  "env \<Rightarrow> args \<Rightarrow> vis \<Rightarrow> int \<Rightarrow> state \<Rightarrow> effect list \<times> (error + outcome) \<times> state" where
  "Callbacks_call E A V key s =
     (case key_branch E A key s of
        (effs, Some e, s1) \<Rightarrow> (effs, Inl e, s1)
      | (effs, None, s1) \<Rightarrow>
          (case render E A V s1 of (effs2, r, s2) \<Rightarrow> (effs @ effs2, r, s2)))"

text \<open>
  Successive calls \<open>Callbacks(k)(vis)\<close>, as \<open>run\<close> makes them in lines 287-289. The source
  has no \<open>try\<close>: an exception raised by one call is handled nowhere, so the calls after it
  do not happen. Without an exception the result lists the outcome of every call.
\<close>

fun call_seq ::
  "env \<Rightarrow> args \<Rightarrow> vis \<Rightarrow> int list \<Rightarrow> state \<Rightarrow> effect list \<times> (error + outcome list) \<times> state" where
  "call_seq E A V [] s = ([], Inr [], s)"
| "call_seq E A V (k # ks) s =
     (case Callbacks_call E A V k s of
        (effs, Inl e, s1) \<Rightarrow> (effs, Inl e, s1)
      | (effs, Inr out, s1) \<Rightarrow>
          (case call_seq E A V ks s1 of
             (effs2, Inl e, s2) \<Rightarrow> (effs @ effs2, Inl e, s2)
           | (effs2, Inr outs, s2) \<Rightarrow> (effs @ effs2, Inr (out # outs), s2)))"

text \<open>The dictionary that \<open>run\<close> builds (lines 239-270).\<close>

definition init_state ::
  "args \<Rightarrow> (tensor \<Rightarrow> tensor) \<Rightarrow> texture_example list \<Rightarrow> visibility_oracle \<Rightarrow> state" where
  "init_state A n ds vo =
     \<lparr>pascal_class = arg_pascal_class A, angle_y = 90, angle_z = 0, cad_idx = 0,
      dataset_index = 0, dump_id = 0, focal = 1000, geometries = [], radius = 7,
      net = n, dataset = ds, vis_oracle = vo, texture_src = None, kpoints_3d = None,
      normal_vertex_colors = None, dump_image = None\<rparr>"

text \<open>The keys that \<open>run\<close> registers with the window (lines 272-284).\<close>

definition key_callbacks :: "int list" where
  "key_callbacks = map py_ord ''FDASHG NOPX''"

text \<open>
  \<open>run\<close> after the state is built: the three calls on a visualizer of its own, then the
  window, which calls the callback of each registered key that is pressed. Here the calls
  of the window are successive calls, so that an exception ends the run; \<open>window_loop\<close>
  below leaves open what the window does after an exception.
\<close>

definition run ::
  "env \<Rightarrow> args \<Rightarrow> vis \<Rightarrow> vis \<Rightarrow> int list \<Rightarrow> state \<Rightarrow> effect list \<times> (error + outcome list) \<times> state" where
  "run E A V0 V pressed s0 =
     (case call_seq E A V0 [py_ord CHR ''N'', py_ord CHR '' '', 0] s0 of
        (effs, Inl e, s1) \<Rightarrow> (effs, Inl e, s1)
      | (effs, Inr outs, s1) \<Rightarrow>
          (case call_seq E A V (filter (\<lambda>k. k \<in> set key_callbacks) pressed) s1 of
             (effs2, Inl e, s2) \<Rightarrow> (effs @ effs2, Inl e, s2)
           | (effs2, Inr outs2, s2) \<Rightarrow> (effs @ effs2, Inr (outs @ outs2), s2)))"

text \<open>The parts of a result.\<close>

definition effects_of :: "effect list \<times> 'r \<times> state \<Rightarrow> effect list" where
  "effects_of t = fst t"

definition result_of :: "effect list \<times> 'r \<times> state \<Rightarrow> 'r" where
  "result_of t = fst (snd t)"

definition state_of :: "effect list \<times> 'r \<times> state \<Rightarrow> state" where
  "state_of t = snd (snd t)"

fun camera_of :: "outcome \<Rightarrow> camera" where
  "camera_of (NoRenderer cam) = cam"
| "camera_of (Rendered cam c) = cam"

text \<open>A state in which a model and a texture example have been loaded.\<close>

definition loaded :: "state \<Rightarrow> bool" where
  "loaded s \<longleftrightarrow> normal_vertex_colors s \<noteq> None \<and> map_of (geometries s) ''mesh'' \<noteq> None
     \<and> kpoints_3d s \<noteq> None \<and> texture_src s \<noteq> None"

text \<open>
  The step of lines 178-180 as the specification words it, for comparison with
  \<open>kpoints_2d_step\<close>: the projected point is divided by half the frame size.
\<close>

definition kpoints_2d_step_spec :: "env \<Rightarrow> matrix \<Rightarrow> matrix \<Rightarrow> vec3 \<Rightarrow> point2" where
  "kpoints_2d_step_spec E K Rt k_val =
     (let (u, v) = project_points E k_val K Rt;
          (u', v') = (u / (of_nat img_w / 2), v / (of_nat img_h / 2))
      in (np_clip u' (- 1) 1, np_clip v' (- 1) 1))"

text \<open>The keys that have a branch in \<open>__call__\<close> (lines 69-107).\<close>

definition handled_keys :: "int list" where
  "handled_keys = 0 # map py_ord ''XRFDSAHG N''"

text \<open>
  The keys of the events that change the viewpoint or a selection (rotate up and down,
  rotate right and left, zoom in and out, next example, next model).
\<close>

definition mutating_keys :: "int list" where
  "mutating_keys = map py_ord ''FDSAHG N''"

text \<open>
  The number of scalar fields in which two states differ; the scalar fields are the
  class name, the two angles, the two indices, the dump counter, the focal length and the
  radius.
\<close>

definition changed_scalars :: "state \<Rightarrow> state \<Rightarrow> nat" where
  "changed_scalars s t =
     (if pascal_class t \<noteq> pascal_class s then 1 else 0)
     + (if angle_y t \<noteq> angle_y s then 1 else 0) + (if angle_z t \<noteq> angle_z s then 1 else 0)
     + (if cad_idx t \<noteq> cad_idx s then 1 else 0)
     + (if dataset_index t \<noteq> dataset_index s then 1 else 0)
     + (if dump_id t \<noteq> dump_id s then 1 else 0) + (if focal t \<noteq> focal s then 1 else 0)
     + (if radius t \<noteq> radius s then 1 else 0)"

text \<open>
  The displayed mesh has the normal colours of the loaded model (the assignment of line
  138 has been made), or no model has been loaded yet.
\<close>

definition mesh_coloured :: "state \<Rightarrow> bool" where
  "mesh_coloured s =
     (case normal_vertex_colors s of
        None \<Rightarrow> map_of (geometries s) ''mesh'' = None
      | Some nvc \<Rightarrow>
          (case map_of (geometries s) ''mesh'' of
             None \<Rightarrow> False
           | Some m \<Rightarrow> vertex_colors m = nvc))"

text \<open>
  The loop of the window (\<open>o3d.draw_geometries_with_key_callbacks\<close>) is Open3D's and not
  part of the sources; the source only hands it the callbacks. Whether it goes on calling
  callbacks after one of them has raised is a parameter here (\<open>goes_on\<close>). The result
  lists what every call made has returned or raised.
\<close>

fun window_loop ::
  "bool \<Rightarrow> env \<Rightarrow> args \<Rightarrow> vis \<Rightarrow> int list \<Rightarrow> state
     \<Rightarrow> effect list \<times> (error + outcome) list \<times> state" where
  "window_loop goes_on E A V [] s = ([], [], s)"
| "window_loop goes_on E A V (k # ks) s =
     (case Callbacks_call E A V k s of
        (effs, r, s1) \<Rightarrow>
          if isl r \<and> \<not> goes_on then (effs, [r], s1)
          else (case window_loop goes_on E A V ks s1 of
                  (effs2, rs, s2) \<Rightarrow> (effs @ effs2, r # rs, s2)))"

text \<open>
  Lines 189-209: the planes of the texture example, warped to the keypoints of the frame
  and stacked as channels.
\<close>

definition warped_planes ::
  "env \<Rightarrow> args \<Rightarrow> state \<Rightarrow> camera \<Rightarrow> (string \<times> point2) list \<Rightarrow> texture_example \<Rightarrow> tensor" where
  "warped_planes E A s cam k2d tex =
     (let (dst_kpoints_planes, dst_visibilities) =
            get_planes E (img_h, img_w) k2d (cam_az cam, cam_el cam) (cad_idx s)
              (arg_pascal_class A) (vis_oracle s);
          src_planes = map (\<lambda>i. to_image E i (LAB A)) (planes tex);
          (planes_warped, planes_unwarped) =
            warp_unwarp_planes E src_planes (src_kpoints_planes tex) dst_kpoints_planes
              (src_vs tex) dst_visibilities (arg_pascal_class A)
      in concat (planes_to_torch E planes_warped (LAB A)))"

subsection \<open>A small session\<close>

text \<open>
  Concrete collaborators, used to run the definitions: a mesh of one vertex, two
  keypoints, a renderer whose buffer is one row of a background and an object pixel, and
  images of one row of two pixels.
\<close>

definition demo_mesh :: mesh where
  "demo_mesh = \<lparr>vertices = [(0, 0, 0)], vertex_colors = [(0, 0, 0)],
                 vertex_normals = [(0, 0, 1)], triangles = []\<rparr>"

definition demo_env :: env where
  "demo_env =
     \<lparr>load_yaml_file = (\<lambda>f. [(''front'', (0, 0, 1)), (''back'', (1, 0, 0))]),
      read_triangle_mesh = (\<lambda>f. demo_mesh),
      compute_vertex_normals = (\<lambda>m. m),
      intrinsic_matrix = (\<lambda>f cx cy. [[of_int f, 0, cx], [0, of_int f, cy], [0, 0, 1]]),
      pascal_vpoint_to_extrinsics = (\<lambda>az el r. [[of_int az, of_int el, r]]),
      project_points = (\<lambda>(x, y, z) K Rt. (96 * z + 200 * x, 32 * z)),
      cvtColor_RGB2LAB = (\<lambda>img. img),
      get_planes = (\<lambda>shape k2d vp cad cls vo. ([map snd k2d], vo (fst vp, snd vp, cad))),
      warp_unwarp_planes = (\<lambda>sp sk dk sv dv cls. (sp, sp)),
      planes_to_torch = (\<lambda>imgs lab. []),
      normalize_to_tensor = (\<lambda>img. []),
      to_image = (\<lambda>t lab. [[(10, 20, 30), (40, 50, 60)]])\<rparr>"

definition demo_args :: args where
  "demo_args = \<lparr>arg_pascal_class = ''chair'', CAD_root = ''cad'', dump_dir = ''/tmp'',
                 LAB = True, verbose = False\<rparr>"

definition demo_vis :: vis where
  "demo_vis = \<lparr>has_render_option = True, has_view_control = True,
                capture = (\<lambda>f Rt g. [[(0, 0, 0), (1 / 2, 1 / 2, 1)]])\<rparr>"

definition bare_vis :: vis where
  "bare_vis = \<lparr>has_render_option = False, has_view_control = False,
                capture = (\<lambda>f Rt g. [])\<rparr>"

definition demo_example :: texture_example where
  "demo_example = \<lparr>planes = [], src_kpoints_planes = [], src_vs = [], src_central = [],
                    src_image = []\<rparr>"

definition demo_init :: state where
  "demo_init = init_state demo_args (\<lambda>t. t) [demo_example] (\<lambda>v. [])"

definition demo_loaded :: state where
  "demo_loaded =
     \<lparr>pascal_class = ''chair'', angle_y = 90, angle_z = 0, cad_idx = 1, dataset_index = 1,
      dump_id = 0, focal = 1000,
      geometries = [(''mesh'', demo_mesh\<lparr>vertex_colors := [(1 / 2, 1 / 2, 1)]\<rparr>)],
      radius = 7, net = (\<lambda>t. t), dataset = [demo_example], vis_oracle = (\<lambda>v. []),
      texture_src = Some demo_example,
      kpoints_3d = Some [(''front'', (0, 0, 1)), (''back'', (1, 0, 0))],
      normal_vertex_colors = Some [(1 / 2, 1 / 2, 1)], dump_image = None\<rparr>"


text \<open>
  A second set of collaborators, in which the four tiles of a frame differ: an image is
  the first channel of its tensor, the sketch tensor is the red channel of the image, and
  the network adds its first two input channels.
\<close>

definition tile_env :: env where
  "tile_env =
     demo_env
       \<lparr>normalize_to_tensor := (\<lambda>img. [map (map (\<lambda>(r, g, b). real (unat r))) img]),
        to_image := (\<lambda>t lab. case t of
                        [] \<Rightarrow> []
                      | ch # rest \<Rightarrow>
                          map (map (\<lambda>x. (word_of_int \<lfloor>x\<rfloor>, word_of_int \<lfloor>x\<rfloor>,
                                          word_of_int \<lfloor>x\<rfloor>))) ch)\<rparr>"

definition tile_vis :: vis where
  "tile_vis = \<lparr>has_render_option = True, has_view_control = True,
                capture = (\<lambda>f Rt g. [[(0, 0, 0), (1 / 5, 1 / 5, 1 / 5)]])\<rparr>"

definition tile_example :: texture_example where
  "tile_example = \<lparr>planes = [], src_kpoints_planes = [], src_vs = [],
                    src_central = [[[7, 8]]], src_image = [[[9, 10]]]\<rparr>"

definition tile_state :: state where
  "tile_state =
     demo_loaded
       \<lparr>net := (\<lambda>t. case t of a # b # rest \<Rightarrow> [map2 (map2 (+)) a b] | _ \<Rightarrow> []),
        dataset := [tile_example], texture_src := Some tile_example\<rparr>"

lemmas demo_defs =
  demo_mesh_def demo_env_def demo_args_def demo_vis_def bare_vis_def demo_example_def
  demo_init_def init_state_def demo_loaded_def

lemmas model_defs =
  run_def Callbacks_call_def key_branch_def render_def composite_frame_def next_model_def
  next_example_def dump_frame_def move_camera_def dataset_getitem_def py_ord_def np_clip_def
  key_callbacks_def mask_artifacts_def same_shape_def np_concatenate_axis1_def hconcat2_def
  background_mask_def to_uint8_image_def float_to_uint8_def py_int_def kpoints_2d_step_def
  img_w_def img_h_def white_def path_join_def

section \<open>Properties\<close>

subsection \<open>What a call leaves unchanged\<close>

lemma parts_simps [simp]:
  "effects_of (effs, r, s) = effs" "result_of (effs, r, s) = r" "state_of (effs, r, s) = s"
  by (simp_all add: effects_of_def result_of_def state_of_def)

lemma render_keeps:
  "angle_y (state_of (render E A V s)) = angle_y s"
  "angle_z (state_of (render E A V s)) = angle_z s"
  "radius (state_of (render E A V s)) = radius s"
  "cad_idx (state_of (render E A V s)) = cad_idx s"
  "dataset_index (state_of (render E A V s)) = dataset_index s"
  "dump_id (state_of (render E A V s)) = dump_id s"
  "focal (state_of (render E A V s)) = focal s"
  "pascal_class (state_of (render E A V s)) = pascal_class s"
  "texture_src (state_of (render E A V s)) = texture_src s"
  "kpoints_3d (state_of (render E A V s)) = kpoints_3d s"
  "normal_vertex_colors (state_of (render E A V s)) = normal_vertex_colors s"
  "dataset (state_of (render E A V s)) = dataset s"
  by (simp_all add: render_def state_of_def Let_def split: option.split sum.split)

lemma move_camera_cong:
  "angle_y s' = angle_y s \<Longrightarrow> angle_z s' = angle_z s \<Longrightarrow> radius s' = radius s
     \<Longrightarrow> focal s' = focal s \<Longrightarrow> move_camera E s' = move_camera E s"
  by (simp add: move_camera_def)

lemma render_camera:
  "result_of (render E A V s) = Inr out \<Longrightarrow> camera_of out = move_camera E s"
  by (auto simp: render_def result_of_def Let_def move_camera_def
           split: option.splits sum.splits if_splits)

lemma Callbacks_call_unfold:
  "Callbacks_call E A V key s =
     (case result_of (key_branch E A key s) of
        Some e \<Rightarrow> (effects_of (key_branch E A key s), Inl e, state_of (key_branch E A key s))
      | None \<Rightarrow>
          (effects_of (key_branch E A key s) @ effects_of (render E A V (state_of (key_branch E A key s))),
           result_of (render E A V (state_of (key_branch E A key s))),
           state_of (render E A V (state_of (key_branch E A key s)))))"
  by (simp add: Callbacks_call_def result_of_def state_of_def effects_of_def
           split: prod.split option.split)

lemma Callbacks_call_camera:
  assumes "result_of (Callbacks_call E A V key s) = Inr out"
  shows "camera_of out = move_camera E (state_of (Callbacks_call E A V key s))"
proof (cases "result_of (key_branch E A key s)")
  case None
  let ?s1 = "state_of (key_branch E A key s)"
  from None assms have r: "result_of (render E A V ?s1) = Inr out"
    by (simp add: Callbacks_call_unfold result_of_def)
  from None have st: "state_of (Callbacks_call E A V key s) = state_of (render E A V ?s1)"
    by (simp add: Callbacks_call_unfold state_of_def)
  have "move_camera E (state_of (render E A V ?s1)) = move_camera E ?s1"
    by (rule move_camera_cong) (simp_all add: render_keeps)
  with render_camera [OF r] st show ?thesis by simp
next
  case (Some e)
  with assms show ?thesis
    by (simp add: Callbacks_call_unfold result_of_def)
qed


lemma key_branch_S:
  "key_branch E A (py_ord CHR ''S'') s = ([], None, s\<lparr>angle_z := angle_z s + 5\<rparr>)"
  by (simp add: key_branch_def py_ord_def)

lemma key_branch_keeps_view:
  assumes "key \<notin> py_ord ` {CHR ''F'', CHR ''D'', CHR ''S'', CHR ''A'', CHR ''H'', CHR ''G''}"
  shows "angle_y (state_of (key_branch E A key s)) = angle_y s"
    and "angle_z (state_of (key_branch E A key s)) = angle_z s"
    and "radius (state_of (key_branch E A key s)) = radius s"
  using assms
  by (simp_all add: key_branch_def dump_frame_def next_example_def next_model_def
        state_of_def Let_def split: option.split sum.split)

lemma Callbacks_call_state:
  "state_of (Callbacks_call E A V key s) =
     (case result_of (key_branch E A key s) of
        Some e \<Rightarrow> state_of (key_branch E A key s)
      | None \<Rightarrow> state_of (render E A V (state_of (key_branch E A key s))))"
  by (simp add: Callbacks_call_unfold state_of_def split: option.split)

lemma Callbacks_call_S_angle_z:
  "angle_z (state_of (Callbacks_call E A V (py_ord CHR ''S'') s)) = angle_z s + 5"
  by (simp add: Callbacks_call_state key_branch_S render_keeps)

lemma Callbacks_call_keeps_view:
  assumes "key \<notin> py_ord ` {CHR ''F'', CHR ''D'', CHR ''S'', CHR ''A'', CHR ''H'', CHR ''G''}"
  shows "angle_y (state_of (Callbacks_call E A V key s)) = angle_y s"
    and "angle_z (state_of (Callbacks_call E A V key s)) = angle_z s"
    and "radius (state_of (Callbacks_call E A V key s)) = radius s"
  by (simp_all add: Callbacks_call_state render_keeps key_branch_keeps_view [OF assms]
        split: option.split)

lemma call_seq_Cons_Inr:
  assumes "result_of (call_seq E A V (k # ks) s) = Inr outs"
  shows "\<exists>out outs'. outs = out # outs'
           \<and> result_of (Callbacks_call E A V k s) = Inr out
           \<and> result_of (call_seq E A V ks (state_of (Callbacks_call E A V k s))) = Inr outs'
           \<and> state_of (call_seq E A V (k # ks) s)
               = state_of (call_seq E A V ks (state_of (Callbacks_call E A V k s)))"
  using assms
  by (auto simp: result_of_def state_of_def split: prod.splits sum.splits)

lemma call_seq_last_camera:
  "result_of (call_seq E A V ks s) = Inr outs \<Longrightarrow> ks \<noteq> []
     \<Longrightarrow> outs \<noteq> [] \<and> camera_of (last outs) = move_camera E (state_of (call_seq E A V ks s))"
proof (induction ks arbitrary: s outs)
  case Nil
  then show ?case by simp
next
  case (Cons k ks)
  from call_seq_Cons_Inr [OF Cons.prems(1)] obtain out outs' where
    o: "outs = out # outs'"
    and c: "result_of (Callbacks_call E A V k s) = Inr out"
    and r: "result_of (call_seq E A V ks (state_of (Callbacks_call E A V k s))) = Inr outs'"
    and st: "state_of (call_seq E A V (k # ks) s)
               = state_of (call_seq E A V ks (state_of (Callbacks_call E A V k s)))"
    by blast
  show ?case
  proof (cases "ks = []")
    case True
    with r have "outs' = []" by (simp add: result_of_def)
    with o c st True Callbacks_call_camera [OF c] show ?thesis
      by (simp add: state_of_def)
  next
    case False
    from Cons.IH [OF r False] o st show ?thesis by simp
  qed
qed

lemma call_seq_replicate_S:
  "result_of (call_seq E A V (replicate n (py_ord CHR ''S'')) s) = Inr outs
     \<Longrightarrow> angle_z (state_of (call_seq E A V (replicate n (py_ord CHR ''S'')) s))
           = angle_z s + 5 * int n"
proof (induction n arbitrary: s outs)
  case 0
  then show ?case by (simp add: state_of_def)
next
  case (Suc n)
  from Suc.prems have "result_of (call_seq E A V (py_ord CHR ''S'' # replicate n (py_ord CHR ''S'')) s) = Inr outs"
    by simp
  from call_seq_Cons_Inr [OF this] obtain out outs' where
    r: "result_of (call_seq E A V (replicate n (py_ord CHR ''S''))
          (state_of (Callbacks_call E A V (py_ord CHR ''S'') s))) = Inr outs'"
    and st: "state_of (call_seq E A V (py_ord CHR ''S'' # replicate n (py_ord CHR ''S'')) s)
               = state_of (call_seq E A V (replicate n (py_ord CHR ''S''))
                    (state_of (Callbacks_call E A V (py_ord CHR ''S'') s)))"
    by blast
  from Suc.IH [OF r] st show ?case
    by (simp add: Callbacks_call_S_angle_z)
qed

lemma call_seq_keeps_view:
  assumes "\<forall>k \<in> set ks. k \<notin> py_ord ` {CHR ''F'', CHR ''D'', CHR ''S'', CHR ''A'', CHR ''H'', CHR ''G''}"
  shows "angle_y (state_of (call_seq E A V ks s)) = angle_y s
       \<and> angle_z (state_of (call_seq E A V ks s)) = angle_z s
       \<and> radius (state_of (call_seq E A V ks s)) = radius s"
  using assms
proof (induction ks arbitrary: s)
  case Nil
  then show ?case by (simp add: state_of_def)
next
  case (Cons k ks)
  then have k: "k \<notin> py_ord ` {CHR ''F'', CHR ''D'', CHR ''S'', CHR ''A'', CHR ''H'', CHR ''G''}"
    and ks: "\<forall>k \<in> set ks. k \<notin> py_ord ` {CHR ''F'', CHR ''D'', CHR ''S'', CHR ''A'', CHR ''H'', CHR ''G''}"
    by simp_all
  let ?c = "Callbacks_call E A V k s"
  have "state_of (call_seq E A V (k # ks) s) = state_of ?c
      \<or> state_of (call_seq E A V (k # ks) s) = state_of (call_seq E A V ks (state_of ?c))"
    by (auto simp: state_of_def split: prod.splits sum.splits)
  with Cons.IH [OF ks, of "state_of ?c"] Callbacks_call_keeps_view [OF k, of E A V s]
  show ?case by auto
qed


lemma run_no_keys:
  "run E A V0 V [] s0 = call_seq E A V0 [py_ord CHR ''N'', py_ord CHR '' '', 0] s0"
  by (simp add: run_def split: prod.splits sum.splits)

lemma demo_loaded_reached:
  "state_of (run demo_env demo_args bare_vis demo_vis [] demo_init) = demo_loaded"
  by (simp add: demo_defs model_defs Let_def)


subsection \<open>Sequences of calls\<close>

lemma call_seq_ok:
  assumes step: "\<And>s k. P s \<Longrightarrow> k \<in> set ks \<Longrightarrow>
      \<not> isl (result_of (Callbacks_call E A V k s)) \<and> P (state_of (Callbacks_call E A V k s))"
    and "P s"
  shows "\<not> isl (result_of (call_seq E A V ks s)) \<and> P (state_of (call_seq E A V ks s))"
  using assms
proof (induction ks arbitrary: s)
  case Nil
  then show ?case by simp
next
  case (Cons k ks)
  let ?c = "Callbacks_call E A V k s"
  from Cons.prems have c: "\<not> isl (result_of ?c)" and p: "P (state_of ?c)"
    by simp_all
  have "\<not> isl (result_of (call_seq E A V ks (state_of ?c)))
      \<and> P (state_of (call_seq E A V ks (state_of ?c)))"
    by (rule Cons.IH) (simp_all add: Cons.prems(1) p)
  with c show ?case
    by (cases ?c; cases "result_of ?c"; cases "call_seq E A V ks (state_of ?c)";
        cases "result_of (call_seq E A V ks (state_of ?c))") auto
qed

lemma demo_render_ok:
  assumes "loaded s"
  shows "\<not> isl (result_of (render demo_env demo_args demo_vis s))"
    and "loaded (state_of (render demo_env demo_args demo_vis s))"
proof -
  from assms obtain nvc m kps tex where
    "normal_vertex_colors s = Some nvc" "map_of (geometries s) ''mesh'' = Some m"
    "kpoints_3d s = Some kps" "texture_src s = Some tex"
    by (auto simp: loaded_def)
  then show "\<not> isl (result_of (render demo_env demo_args demo_vis s))"
    and "loaded (state_of (render demo_env demo_args demo_vis s))"
    by (simp_all add: render_def composite_frame_def demo_env_def demo_args_def demo_vis_def
          Let_def mask_artifacts_def same_shape_def np_concatenate_axis1_def
          background_mask_def to_uint8_image_def loaded_def update_conv'
          split: prod.split)
qed

lemma demo_call_ok:
  assumes "loaded s"
    and "key \<in> py_ord ` {CHR ''R'', CHR ''F'', CHR ''D'', CHR ''S'', CHR ''A'', CHR ''H'', CHR ''G'', CHR ''N''} \<or> key = 0"
  shows "\<not> isl (result_of (Callbacks_call demo_env demo_args demo_vis key s))
       \<and> loaded (state_of (Callbacks_call demo_env demo_args demo_vis key s))"
proof -
  from assms(2) have n: "result_of (key_branch demo_env demo_args key s) = None"
    by (auto simp: key_branch_def next_model_def py_ord_def Let_def)
  from assms have "loaded (state_of (key_branch demo_env demo_args key s))"
    by (auto simp: key_branch_def next_model_def py_ord_def Let_def loaded_def update_conv'
        split: option.split)
  from demo_render_ok [OF this] n show ?thesis
    by (simp add: Callbacks_call_unfold)
qed


lemma call_seq_replicate_field:
  fixes fld :: "state \<Rightarrow> 'a::semiring_1"
  assumes step: "\<And>s. fld (state_of (Callbacks_call E A V k s)) = fld s + d"
    and "result_of (call_seq E A V (replicate n k) s) = Inr outs"
  shows "fld (state_of (call_seq E A V (replicate n k) s)) = fld s + of_nat n * d"
  using assms(2)
proof (induction n arbitrary: s outs)
  case 0
  then show ?case by simp
next
  case (Suc n)
  then have "result_of (call_seq E A V (k # replicate n k) s) = Inr outs"
    by simp
  from call_seq_Cons_Inr [OF this] obtain outs' where
    r: "result_of (call_seq E A V (replicate n k) (state_of (Callbacks_call E A V k s))) = Inr outs'"
    and st: "state_of (call_seq E A V (k # replicate n k) s)
               = state_of (call_seq E A V (replicate n k) (state_of (Callbacks_call E A V k s)))"
    by blast
  from Suc.IH [OF r] st show ?case
    by (simp add: step algebra_simps del: call_seq.simps)
qed

lemma Callbacks_call_G_radius:
  "radius (state_of (Callbacks_call E A V (py_ord CHR ''G'') s)) = radius s + (- (5 / 100))"
  by (simp add: Callbacks_call_state key_branch_def py_ord_def render_keeps)

lemma run_after_init:
  assumes "\<not> isl (result_of (call_seq E A V0 [py_ord CHR ''N'', py_ord CHR '' '', 0] s0))"
  shows "state_of (run E A V0 V pressed s0)
           = state_of (call_seq E A V (filter (\<lambda>k. k \<in> set key_callbacks) pressed)
               (state_of (call_seq E A V0 [py_ord CHR ''N'', py_ord CHR '' '', 0] s0)))"
    and "result_of (run E A V0 V pressed s0)
           = (case result_of (call_seq E A V (filter (\<lambda>k. k \<in> set key_callbacks) pressed)
                 (state_of (call_seq E A V0 [py_ord CHR ''N'', py_ord CHR '' '', 0] s0))) of
                Inl e \<Rightarrow> Inl e
              | Inr outs2 \<Rightarrow>
                  Inr (projr (result_of (call_seq E A V0 [py_ord CHR ''N'', py_ord CHR '' '', 0] s0))
                       @ outs2))"
  using assms
  by (auto simp: run_def simp del: call_seq.simps split: prod.splits sum.splits)

lemma demo_init_ok:
  "\<not> isl (result_of (call_seq demo_env demo_args bare_vis [py_ord CHR ''N'', py_ord CHR '' '', 0] demo_init))"
  "state_of (call_seq demo_env demo_args bare_vis [py_ord CHR ''N'', py_ord CHR '' '', 0] demo_init) = demo_loaded"
  using demo_loaded_reached
  by (simp_all add: demo_defs model_defs Let_def)

lemma demo_loaded_loaded: "loaded demo_loaded"
  by (simp add: loaded_def demo_loaded_def)

subsection \<open>The keypoint loop\<close>

lemma update_fresh:
  "k \<notin> fst ` set acc \<Longrightarrow> AList.update k v acc = acc @ [(k, v)]"
  by (induction acc) auto

lemma project_kpoints_distinct:
  "distinct (map fst kps) \<Longrightarrow> fst ` set kps \<inter> fst ` set acc = {}
     \<Longrightarrow> project_kpoints E K Rt kps acc
         = acc @ map (\<lambda>(k_name, k_val). (k_name, kpoints_2d_step E K Rt k_val)) kps"
proof (induction kps arbitrary: acc)
  case Nil
  then show ?case by simp
next
  case (Cons p kps)
  obtain k v where p: "p = (k, v)" by (cases p)
  from Cons.prems p have fresh: "k \<notin> fst ` set acc" by auto
  have "fst ` set kps \<inter> fst ` set (acc @ [(k, kpoints_2d_step E K Rt v)]) = {}"
    using Cons.prems p by auto
  with Cons.IH [of "acc @ [(k, kpoints_2d_step E K Rt v)]"] Cons.prems p fresh
  show ?case by (simp add: update_fresh)
qed

lemma project_kpoints_keys:
  "fst ` set (project_kpoints E K Rt kps acc) = fst ` set kps \<union> fst ` set acc"
proof (induction kps arbitrary: acc)
  case Nil
  then show ?case by simp
next
  case (Cons p kps)
  obtain k v where p: "p = (k, v)" by (cases p)
  have "fst ` set (project_kpoints E K Rt (p # kps) acc)
          = fst ` set kps \<union> fst ` set (AList.update k (kpoints_2d_step E K Rt v) acc)"
    by (simp add: p Cons.IH)
  also have "\<dots> = fst ` set kps \<union> ({k} \<union> fst ` set acc)"
    by (simp only: dom_update)
  finally show ?case by (auto simp: p)
qed

lemma project_kpoints_distinct_keys:
  "distinct (map fst acc) \<Longrightarrow> distinct (map fst (project_kpoints E K Rt kps acc))"
  by (induction kps arbitrary: acc) (auto simp: distinct_update)

lemma np_clip_range:
  fixes a :: "'a::linorder"
  shows "lo \<le> hi \<Longrightarrow> lo \<le> np_clip a lo hi \<and> np_clip a lo hi \<le> hi"
  by (auto simp: np_clip_def min_def max_def)

lemma render_kpoints:
  assumes "result_of (render E A V s) = Inr (Rendered cam c)"
  shows "\<exists>kps. kpoints_3d s = Some kps
           \<and> kpoints_2d c = project_kpoints E (cam_intrinsic cam) (cam_extrinsic cam) kps []"
  using assms
  by (auto simp: render_def composite_frame_def Let_def
           split: option.splits sum.splits if_splits prod.splits)

subsection \<open>Masking and tiling\<close>

lemma mask_artifacts_Inr:
  assumes "mask_artifacts m img = Inr r"
  shows "length r = length img"
    and "i < length img \<Longrightarrow> length (r ! i) = length (img ! i)"
    and "i < length img \<Longrightarrow> j < length (img ! i)
           \<Longrightarrow> r ! i ! j = (if m ! i ! j then white else img ! i ! j)"
proof -
  from assms have sh: "list_all2 (\<lambda>mr ir. length mr = length ir) m img"
    and r: "r = map2 (\<lambda>mr ir. map2 (\<lambda>b p. if b then white else p) mr ir) m img"
    by (simp_all add: mask_artifacts_def same_shape_def split: if_splits)
  from sh have len: "length m = length img"
    by (rule list_all2_lengthD)
  then show "length r = length img"
    by (simp add: r)
  {
    assume i: "i < length img"
    with sh have row: "length (m ! i) = length (img ! i)"
      by (simp add: list_all2_conv_all_nth)
    from i len have ri: "r ! i = map2 (\<lambda>b p. if b then white else p) (m ! i) (img ! i)"
      by (simp add: r)
    show "length (r ! i) = length (img ! i)"
      by (simp add: ri row)
    assume "j < length (img ! i)"
    with row show "r ! i ! j = (if m ! i ! j then white else img ! i ! j)"
      by (simp add: ri)
  }
qed

lemma hconcat2_nth:
  "length b = length a \<Longrightarrow> length (hconcat2 a b) = length a
     \<and> (\<forall>i < length a. hconcat2 a b ! i = a ! i @ b ! i)"
  by (simp add: hconcat2_def)

lemma np_concatenate_axis1_four:
  assumes "np_concatenate_axis1 [a, b, c, d] = Inr out"
  shows "length out = length a"
    and "i < length a \<Longrightarrow> out ! i = a ! i @ b ! i @ c ! i @ d ! i"
proof -
  from assms have l: "length b = length a" "length c = length a" "length d = length a"
    and o: "out = hconcat2 (hconcat2 (hconcat2 a b) c) d"
    by (simp_all add: np_concatenate_axis1_def split: if_splits)
  from hconcat2_nth [OF l(1)] have ab: "length (hconcat2 a b) = length a"
    "\<forall>i < length a. hconcat2 a b ! i = a ! i @ b ! i" by simp_all
  from hconcat2_nth [of c "hconcat2 a b"] l ab
  have abc: "length (hconcat2 (hconcat2 a b) c) = length a"
    "\<forall>i < length a. hconcat2 (hconcat2 a b) c ! i = a ! i @ b ! i @ c ! i" by simp_all
  from hconcat2_nth [of d "hconcat2 (hconcat2 a b) c"] l abc
  show "length out = length a"
    and "i < length a \<Longrightarrow> out ! i = a ! i @ b ! i @ c ! i @ d ! i"
    by (simp_all add: o)
qed

lemma composite_frame_Inr:
  assumes "composite_frame E A s cam buf = Inr c"
  shows "object_mask c = background_mask (to_uint8_image buf)"
    and "mask_artifacts (object_mask c) (net_raw c) = Inr (net_masked c)"
    and "np_concatenate_axis1 [sketch_img c, central_img c, net_masked c, source_img c]
           = Inr (out_image c)"
    and "sketch_img c
           = to_image E (normalize_to_tensor E (cvtColor_RGB2LAB E (to_uint8_image buf))) (LAB A)"
    and "\<exists>tex. texture_src s = Some tex
           \<and> central_img c = to_image E (src_central tex) (LAB A)
           \<and> source_img c = to_image E (src_image tex) (LAB A)"
  using assms
  by (auto simp: composite_frame_def Let_def
           split: option.splits sum.splits if_splits prod.splits)

lemma render_Rendered:
  assumes "result_of (render E A V s) = Inr (Rendered cam c)"
  shows "composite_frame E A
           ((state_of (render E A V s))\<lparr>dump_image := dump_image s\<rparr>) cam
           (capture V (focal s) (cam_extrinsic cam) (geometries (state_of (render E A V s))))
           = Inr c"
    and "dump_image (state_of (render E A V s)) = Some (out_image c)"
    and "Imshow (out_image c) \<in> set (effects_of (render E A V s))"
  using assms
  by (auto simp: render_def Let_def split: option.splits sum.splits if_splits)

lemma Callbacks_call_Rendered:
  assumes "result_of (Callbacks_call E A V key s) = Inr (Rendered cam c)"
  shows "\<exists>s1. result_of (render E A V s1) = Inr (Rendered cam c)
           \<and> state_of (Callbacks_call E A V key s) = state_of (render E A V s1)
           \<and> set (effects_of (render E A V s1)) \<subseteq> set (effects_of (Callbacks_call E A V key s))"
proof (cases "result_of (key_branch E A key s)")
  case None
  with assms show ?thesis
    by (intro exI [of _ "state_of (key_branch E A key s)"]) (simp add: Callbacks_call_unfold)
next
  case (Some e)
  with assms show ?thesis by (simp add: Callbacks_call_unfold)
qed

subsection \<open>The CAD index\<close>

lemma key_branch_N:
  "key_branch E A (py_ord CHR ''N'') s = next_model E A s"
  by (simp add: key_branch_def py_ord_def)

lemma Callbacks_call_N_state:
  "cad_idx (state_of (Callbacks_call E A V (py_ord CHR ''N'') s))
     = (if cad_idx s + 1 = 10 then 0 else cad_idx s + 1)"
  "pascal_class (state_of (Callbacks_call E A V (py_ord CHR ''N'') s)) = pascal_class s"
  "kpoints_3d (state_of (Callbacks_call E A V (py_ord CHR ''N'') s))
     = Some (load_yaml_file E (path_join (CAD_root A)
         (''pascal_'' @ pascal_class s @ ''_cad_''
            @ format_03d (if cad_idx s + 1 = 10 then 0 else cad_idx s + 1) @ ''.yaml'')))"
  by (simp_all add: Callbacks_call_state key_branch_N next_model_def render_keeps Let_def)

lemma Callbacks_call_cad_idx_other:
  "key \<noteq> py_ord CHR ''N'' \<Longrightarrow> cad_idx (state_of (Callbacks_call E A V key s)) = cad_idx s"
  by (simp add: Callbacks_call_state key_branch_def dump_frame_def next_example_def
        render_keeps Let_def split: option.split sum.split)

lemma call_seq_replicate_N:
  "result_of (call_seq E A V (replicate n (py_ord CHR ''N'')) s) = Inr outs
     \<Longrightarrow> 0 \<le> cad_idx s \<Longrightarrow> cad_idx s < 10
     \<Longrightarrow> cad_idx (state_of (call_seq E A V (replicate n (py_ord CHR ''N'')) s))
           = (cad_idx s + int n) mod 10"
proof (induction n arbitrary: s outs)
  case 0
  then show ?case by simp
next
  case (Suc n)
  let ?N = "py_ord CHR ''N''"
  let ?s1 = "state_of (Callbacks_call E A V ?N s)"
  from Suc.prems(1) have "result_of (call_seq E A V (?N # replicate n ?N) s) = Inr outs"
    by simp
  from call_seq_Cons_Inr [OF this] obtain outs' where
    r: "result_of (call_seq E A V (replicate n ?N) ?s1) = Inr outs'"
    and st: "state_of (call_seq E A V (?N # replicate n ?N) s)
               = state_of (call_seq E A V (replicate n ?N) ?s1)"
    by blast
  have c1: "cad_idx ?s1 = (cad_idx s + 1) mod 10"
    using Suc.prems(2,3) by (simp add: Callbacks_call_N_state)
  then have "0 \<le> cad_idx ?s1" "cad_idx ?s1 < 10"
    by simp_all
  from Suc.IH [OF r this] st c1 show ?case
    by (simp add: mod_simps algebra_simps del: call_seq.simps)
qed

subsection \<open>The dataset index\<close>

lemma key_branch_space:
  "key_branch E A (py_ord CHR '' '') s = next_example s"
  by (simp add: key_branch_def py_ord_def)

lemma dataset_getitem_in_range:
  "0 \<le> i \<Longrightarrow> i < int (length ds) \<Longrightarrow> dataset_getitem ds i = Inr (ds ! nat i)"
  by (simp add: dataset_getitem_def)

lemma dataset_getitem_past_end:
  "int (length ds) \<le> i \<Longrightarrow> dataset_getitem ds i = Inl IndexError"
  by (simp add: dataset_getitem_def)

lemma Callbacks_call_dataset_index_other:
  "key \<noteq> py_ord CHR '' '' \<Longrightarrow>
     dataset_index (state_of (Callbacks_call E A V key s)) = dataset_index s"
  by (simp add: Callbacks_call_state key_branch_def dump_frame_def next_model_def
        render_keeps Let_def split: option.split sum.split)

subsection \<open>The dump of a frame\<close>

lemma key_branch_X:
  "key_branch E A (py_ord CHR ''X'') s = dump_frame A s"
  by (simp add: key_branch_def py_ord_def)

lemma format_03d_small:
  "format_03d 0 = ''000''" "format_03d 1 = ''001''"
  by (simp_all add: format_03d_def zfill_def digits10.simps digit_char_def numeral_3_eq_3)

lemma render_dump_image:
  "dump_image s \<noteq> None \<Longrightarrow> dump_image (state_of (render E A V s)) \<noteq> None"
  by (simp add: render_def Let_def split: option.split sum.split)

lemma Callbacks_call_X_Some:
  assumes "dump_image s = Some img"
  shows "effects_of (Callbacks_call E A V (py_ord CHR ''X'') s)
           = [Mkdir (dump_dir A),
              Imwrite (path_join (dump_dir A)
                (format_03d (dump_id s) @ ''_el_'' @ format_03d (90 - angle_y s) @ ''_az_''
                   @ format_03d ((angle_z s + 90) mod 360) @ ''_rad_''
                   @ format_03d (py_int (radius s)) @ ''.png'')) img,
              PrintSaved (path_join (dump_dir A)
                (format_03d (dump_id s) @ ''_el_'' @ format_03d (90 - angle_y s) @ ''_az_''
                   @ format_03d ((angle_z s + 90) mod 360) @ ''_rad_''
                   @ format_03d (py_int (radius s)) @ ''.png''))]
             @ effects_of (render E A V (s\<lparr>dump_id := dump_id s + 1\<rparr>))"
    and "state_of (Callbacks_call E A V (py_ord CHR ''X'') s)
           = state_of (render E A V (s\<lparr>dump_id := dump_id s + 1\<rparr>))"
    and "result_of (Callbacks_call E A V (py_ord CHR ''X'') s)
           = result_of (render E A V (s\<lparr>dump_id := dump_id s + 1\<rparr>))"
  using assms
  by (simp_all add: Callbacks_call_unfold key_branch_X dump_frame_def Let_def)

lemma Callbacks_call_X_None:
  "dump_image s = None \<Longrightarrow>
     Callbacks_call E A V (py_ord CHR ''X'') s
       = ([Mkdir (dump_dir A)], Inl (KeyError ''dump_image''), s)"
  by (simp add: Callbacks_call_def key_branch_X dump_frame_def Let_def)

subsection \<open>Keys without a branch\<close>

lemma key_branch_unhandled:
  "key \<notin> set handled_keys \<Longrightarrow> key_branch E A key s = ([], Some NotImplementedError, s)"
  by (simp add: handled_keys_def key_branch_def py_ord_def)

subsection \<open>The pipeline run again\<close>

lemma composite_frame_upd:
  "composite_frame E A (s\<lparr>dump_image := d\<rparr>) cam buf = composite_frame E A s cam buf"
  "composite_frame E A (s\<lparr>geometries := g\<rparr>) cam buf = composite_frame E A s cam buf"
  by (simp_all add: composite_frame_def Let_def cong: option.case_cong sum.case_cong if_cong)

lemma move_camera_upd:
  "move_camera E (s\<lparr>dump_image := d\<rparr>) = move_camera E s"
  "move_camera E (s\<lparr>geometries := g\<rparr>) = move_camera E s"
  by (simp_all add: move_camera_def)

lemma render_keeps_rest:
  "state_of (render E A V s)
     = s\<lparr>geometries := geometries (state_of (render E A V s)),
         dump_image := dump_image (state_of (render E A V s))\<rparr>"
  by (simp add: render_def Let_def split: option.split sum.split)

text \<open>The pipeline from line 141 on, for a state whose mesh already has the normal colours.\<close>

lemma render_coloured:
  assumes "normal_vertex_colors s = Some nvc"
    and "map_of (geometries s) ''mesh'' = Some m" and "vertex_colors m = nvc"
  shows "render E A V s =
     (let cam = move_camera E s;
          pr = (if verbose A
                then [PrintCamera (cam_az cam) (cam_angle_y cam) (cam_radius cam)] else [])
      in if \<not> has_render_option V \<or> \<not> has_view_control V
         then (pr, Inr (NoRenderer cam), s)
         else
           case composite_frame E A s cam
                  (capture V (focal s) (cam_extrinsic cam) (geometries s)) of
             Inl e \<Rightarrow> (pr @ [AlignView (focal s) (cam_extrinsic cam)], Inl e, s)
           | Inr c \<Rightarrow>
               (pr @ [AlignView (focal s) (cam_extrinsic cam), Imshow (out_image c)],
                Inr (Rendered cam c), s\<lparr>dump_image := Some (out_image c)\<rparr>))"
proof -
  from assms(3) have "m\<lparr>vertex_colors := nvc\<rparr> = m" by simp
  with assms(2) have "AList.update ''mesh'' (m\<lparr>vertex_colors := nvc\<rparr>) (geometries s) = geometries s"
    by (simp add: update_triv)
  then have "s\<lparr>geometries := AList.update ''mesh'' (m\<lparr>vertex_colors := nvc\<rparr>) (geometries s)\<rparr> = s"
    by simp
  then show ?thesis
    using assms(1,2) by (simp add: render_def Let_def)
qed

lemma render_colours:
  assumes "normal_vertex_colors s = Some nvc" and "map_of (geometries s) ''mesh'' = Some m"
  shows "render E A V s
           = render E A V
               (s\<lparr>geometries := AList.update ''mesh'' (m\<lparr>vertex_colors := nvc\<rparr>) (geometries s)\<rparr>)"
proof -
  let ?g = "AList.update ''mesh'' (m\<lparr>vertex_colors := nvc\<rparr>) (geometries s)"
  have g: "map_of ?g ''mesh'' = Some (m\<lparr>vertex_colors := nvc\<rparr>)"
    by (simp add: update_conv')
  have idem: "AList.update ''mesh'' (m\<lparr>vertex_colors := nvc\<rparr>) ?g = ?g"
    by (rule update_triv) (rule g)
  show ?thesis
    using assms by (simp add: render_def g idem Let_def)
qed


lemma render_coloured_twice:
  assumes n: "normal_vertex_colors s = Some nvc"
    and g: "map_of (geometries s) ''mesh'' = Some m" and c: "vertex_colors m = nvc"
  shows "render E A V (state_of (render E A V s)) = render E A V s"
proof -
  let ?cam = "move_camera E s"
  let ?buf = "capture V (focal s) (cam_extrinsic ?cam) (geometries s)"
  note r = render_coloured [OF n g c, of E A V]
  show ?thesis
  proof (cases "\<not> has_render_option V \<or> \<not> has_view_control V")
    case True
    then have "state_of (render E A V s) = s"
      by (simp add: r Let_def)
    then show ?thesis by simp
  next
    case ready: False
    show ?thesis
    proof (cases "composite_frame E A s ?cam ?buf")
      case (Inl e)
      with ready have "state_of (render E A V s) = s"
        by (simp add: r Let_def)
      then show ?thesis by simp
    next
      case (Inr cf)
      let ?s2 = "s\<lparr>dump_image := Some (out_image cf)\<rparr>"
      from Inr ready have st: "state_of (render E A V s) = ?s2"
        by (simp add: r Let_def)
      have n2: "normal_vertex_colors ?s2 = Some nvc"
        and g2: "map_of (geometries ?s2) ''mesh'' = Some m"
        using n g by simp_all
      have "render E A V ?s2 = render E A V s"
        using Inr ready
        by (simp add: render_coloured [OF n2 g2 c, of E A V] r Let_def move_camera_upd
              composite_frame_upd)
      with st show ?thesis by simp
    qed
  qed
qed

lemma render_twice:
  "render E A V (state_of (render E A V s)) = render E A V s"
proof (cases "normal_vertex_colors s")
  case None
  then show ?thesis by (simp add: render_def)
next
  case (Some nvc)
  show ?thesis
  proof (cases "map_of (geometries s) ''mesh''")
    case None
    with Some show ?thesis by (simp add: render_def)
  next
    case (Some m)
    let ?s1 = "s\<lparr>geometries := AList.update ''mesh'' (m\<lparr>vertex_colors := nvc\<rparr>) (geometries s)\<rparr>"
    have e: "render E A V s = render E A V ?s1"
      using \<open>normal_vertex_colors s = Some nvc\<close> Some by (rule render_colours)
    have "render E A V (state_of (render E A V ?s1)) = render E A V ?s1"
    proof (rule render_coloured_twice)
      show "normal_vertex_colors ?s1 = Some nvc"
        using \<open>normal_vertex_colors s = Some nvc\<close> by simp
      show "map_of (geometries ?s1) ''mesh'' = Some (m\<lparr>vertex_colors := nvc\<rparr>)"
        by (simp add: update_conv')
      show "vertex_colors (m\<lparr>vertex_colors := nvc\<rparr>) = nvc"
        by simp
    qed
    then show ?thesis by (simp only: e)
  qed
qed

lemma key_branch_0: "key_branch E A 0 s = ([], None, s)"
  by (simp add: key_branch_def)

lemma Callbacks_call_0: "Callbacks_call E A V 0 s = render E A V s"
  by (simp add: Callbacks_call_def key_branch_0 split: prod.split)


lemma no_op_again:
  "Callbacks_call E A V 0 (((\<lambda>u. state_of (Callbacks_call E A V 0 u)) ^^ n) s)
     = Callbacks_call E A V 0 s"
proof (induction n arbitrary: s)
  case 0
  then show ?case by simp
next
  case (Suc n)
  have "Callbacks_call E A V 0 (((\<lambda>u. state_of (Callbacks_call E A V 0 u)) ^^ Suc n) s)
          = Callbacks_call E A V 0 (((\<lambda>u. state_of (Callbacks_call E A V 0 u)) ^^ n)
              (state_of (Callbacks_call E A V 0 s)))"
    by (simp only: funpow_Suc_right o_apply)
  also have "\<dots> = Callbacks_call E A V 0 (state_of (Callbacks_call E A V 0 s))"
    by (rule Suc.IH)
  also have "\<dots> = Callbacks_call E A V 0 s"
    by (simp only: Callbacks_call_0 render_twice)
  finally show ?case .
qed

subsection \<open>The tiles of a frame\<close>

lemma composite_frame_synthesis:
  assumes "composite_frame E A s cam buf = Inr c"
  shows "\<exists>tex. texture_src s = Some tex
           \<and> net_raw c
               = to_image E
                   (net s (normalize_to_tensor E (cvtColor_RGB2LAB E (to_uint8_image buf))
                           @ src_central tex @ warped_planes E A s cam (kpoints_2d c) tex))
                   (LAB A)"
  using assms
  by (auto simp: composite_frame_def warped_planes_def Let_def
           split: option.splits sum.splits if_splits prod.splits)

lemma render_keeps_net:
  "net (state_of (render E A V s)) = net s"
  using arg_cong [OF render_keeps_rest [of E A V s], of net] by simp

lemma list_of_length_1: "length xs = 1 \<Longrightarrow> xs = [xs ! 0]"
  by (cases xs) simp_all

lemma list_of_length_2: "length xs = 2 \<Longrightarrow> xs = [xs ! 0, xs ! 1]"
  by (cases xs; cases "tl xs") auto

subsection \<open>The loop of the window\<close>

lemma window_loop_single:
  "window_loop g E A V [k] s
     = (effects_of (Callbacks_call E A V k s), [result_of (Callbacks_call E A V k s)],
        state_of (Callbacks_call E A V k s))"
  by (cases "Callbacks_call E A V k s") simp

subsection \<open>The colours of the mesh\<close>

lemma render_mesh_coloured:
  assumes "(normal_vertex_colors s = None) = (map_of (geometries s) ''mesh'' = None)"
  shows "mesh_coloured (state_of (render E A V s))"
proof (cases "normal_vertex_colors s")
  case None
  with assms show ?thesis
    by (simp add: render_def mesh_coloured_def)
next
  case (Some nvc)
  with assms obtain m where m: "map_of (geometries s) ''mesh'' = Some m"
    by auto
  have g: "geometries (state_of (render E A V s))
             = AList.update ''mesh'' (m\<lparr>vertex_colors := nvc\<rparr>) (geometries s)"
    using Some m by (simp add: render_def Let_def split: sum.split)
  show ?thesis
    by (simp add: mesh_coloured_def render_keeps Some g update_conv')
qed

lemma key_branch_simps:
  "key_branch E A (py_ord CHR ''R'') s = ([], None, s)"
  "key_branch E A (py_ord CHR ''F'') s = ([], None, s\<lparr>angle_y := angle_y s + 5\<rparr>)"
  "key_branch E A (py_ord CHR ''D'') s = ([], None, s\<lparr>angle_y := angle_y s - 5\<rparr>)"
  "key_branch E A (py_ord CHR ''A'') s = ([], None, s\<lparr>angle_z := angle_z s - 5\<rparr>)"
  "key_branch E A (py_ord CHR ''H'') s = ([], None, s\<lparr>radius := radius s + 5 / 100\<rparr>)"
  "key_branch E A (py_ord CHR ''G'') s = ([], None, s\<lparr>radius := radius s - 5 / 100\<rparr>)"
  by (simp_all add: key_branch_def py_ord_def)

lemma handled_keys_cases:
  assumes "key \<in> set handled_keys"
  obtains "key = 0" | "key = py_ord CHR ''X''" | "key = py_ord CHR ''R''"
    | "key = py_ord CHR ''F''" | "key = py_ord CHR ''D''" | "key = py_ord CHR ''S''"
    | "key = py_ord CHR ''A''" | "key = py_ord CHR ''H''" | "key = py_ord CHR ''G''"
    | "key = py_ord CHR '' ''" | "key = py_ord CHR ''N''"
  using assms by (auto simp: handled_keys_def)

lemma key_branch_raises_unchanged:
  "result_of (key_branch E A key s) = None \<or> state_of (key_branch E A key s) = s"
proof (cases "key \<in> set handled_keys")
  case True
  then show ?thesis
  proof (cases rule: handled_keys_cases)
    case 2
    then show ?thesis
      by (simp add: key_branch_X dump_frame_def Let_def split: option.split)
  next
    case 10
    then show ?thesis
      by (simp add: key_branch_space next_example_def split: sum.split)
  next
    case 11
    then show ?thesis
      by (simp add: key_branch_N next_model_def Let_def)
  qed (simp_all add: key_branch_0 key_branch_S key_branch_simps)
next
  case False
  then show ?thesis
    by (simp add: key_branch_unhandled)
qed

lemma key_branch_mesh_other:
  assumes "key \<noteq> py_ord CHR ''N''"
  shows "normal_vertex_colors (state_of (key_branch E A key s)) = normal_vertex_colors s
       \<and> geometries (state_of (key_branch E A key s)) = geometries s"
proof (cases "key \<in> set handled_keys")
  case True
  then show ?thesis
  proof (cases rule: handled_keys_cases)
    case 2
    then show ?thesis
      by (simp add: key_branch_X dump_frame_def Let_def split: option.split)
  next
    case 10
    then show ?thesis
      by (simp add: key_branch_space next_example_def split: sum.split)
  next
    case 11
    with assms show ?thesis by simp
  qed (simp_all add: key_branch_0 key_branch_S key_branch_simps)
next
  case False
  then show ?thesis
    by (simp add: key_branch_unhandled)
qed


lemma key_branch_mesh_N:
  "normal_vertex_colors (state_of (key_branch E A (py_ord CHR ''N'') s)) \<noteq> None"
  "map_of (geometries (state_of (key_branch E A (py_ord CHR ''N'') s))) ''mesh'' \<noteq> None"
  by (simp_all add: key_branch_N next_model_def Let_def update_conv' split: option.split)

lemma mesh_coloured_paired:
  "mesh_coloured s \<Longrightarrow>
     (normal_vertex_colors s = None) = (map_of (geometries s) ''mesh'' = None)"
  by (cases "normal_vertex_colors s"; cases "map_of (geometries s) ''mesh''")
     (simp_all add: mesh_coloured_def)

lemma Callbacks_call_mesh_coloured:
  assumes "mesh_coloured s"
  shows "mesh_coloured (state_of (Callbacks_call E A V key s))"
proof (cases "result_of (key_branch E A key s)")
  case None
  let ?s1 = "state_of (key_branch E A key s)"
  have "(normal_vertex_colors ?s1 = None) = (map_of (geometries ?s1) ''mesh'' = None)"
  proof (cases "key = py_ord CHR ''N''")
    case True
    then show ?thesis
      using key_branch_mesh_N [of E A s] by auto
  next
    case False
    then show ?thesis
      using mesh_coloured_paired [OF assms] key_branch_mesh_other [OF False, of E A s]
      by simp
  qed
  then have "mesh_coloured (state_of (render E A V ?s1))"
    by (rule render_mesh_coloured)
  with None show ?thesis
    by (simp add: Callbacks_call_state)
next
  case (Some e)
  with key_branch_raises_unchanged [of E A key s] have "state_of (key_branch E A key s) = s"
    by simp
  with Some assms show ?thesis
    by (simp add: Callbacks_call_state)
qed

lemma render_without_window:
  assumes "mesh_coloured s" and "\<not> (has_render_option V \<and> has_view_control V)"
  shows "state_of (render E A V s) = s"
proof (cases "normal_vertex_colors s")
  case None
  then show ?thesis by (simp add: render_def)
next
  case (Some nvc)
  with assms(1) obtain m where m: "map_of (geometries s) ''mesh'' = Some m"
    and c: "vertex_colors m = nvc"
    by (auto simp: mesh_coloured_def split: option.splits)
  from assms(2) have "\<not> has_render_option V \<or> \<not> has_view_control V"
    by simp
  then show ?thesis
    by (simp add: render_coloured [OF Some m c] Let_def)
qed

subsection \<open>The branches that change the state\<close>

lemma mutating_keys_cases:
  assumes "key \<in> set mutating_keys"
  obtains "key = py_ord CHR ''F''" | "key = py_ord CHR ''D''" | "key = py_ord CHR ''S''"
    | "key = py_ord CHR ''A''" | "key = py_ord CHR ''H''" | "key = py_ord CHR ''G''"
    | "key = py_ord CHR '' ''" | "key = py_ord CHR ''N''"
  using assms by (auto simp: mutating_keys_def)

lemma key_branch_next_example:
  "dataset_getitem (dataset s) (dataset_index s) = Inr ex \<Longrightarrow>
     key_branch E A (py_ord CHR '' '') s
       = ([], None, s\<lparr>texture_src := Some ex, dataset_index := dataset_index s + 1\<rparr>)"
  "dataset_getitem (dataset s) (dataset_index s) = Inl e \<Longrightarrow>
     key_branch E A (py_ord CHR '' '') s = ([], Some e, s)"
  by (simp_all add: key_branch_space next_example_def)

lemma key_branch_next_model:
  "result_of (key_branch E A (py_ord CHR ''N'') s) = None"
  "cad_idx (state_of (key_branch E A (py_ord CHR ''N'') s))
     = (if cad_idx s + 1 = 10 then 0 else cad_idx s + 1)"
  "state_of (key_branch E A (py_ord CHR ''N'') s)
     = s\<lparr>cad_idx := cad_idx (state_of (key_branch E A (py_ord CHR ''N'') s)),
         kpoints_3d := kpoints_3d (state_of (key_branch E A (py_ord CHR ''N'') s)),
         normal_vertex_colors :=
           normal_vertex_colors (state_of (key_branch E A (py_ord CHR ''N'') s)),
         geometries := geometries (state_of (key_branch E A (py_ord CHR ''N'') s))\<rparr>"
  by (simp_all add: key_branch_N next_model_def Let_def)

lemma key_branch_one_scalar:
  assumes "key \<in> set mutating_keys" and "result_of (key_branch E A key s) = None"
  shows "changed_scalars s (state_of (key_branch E A key s)) = 1"
  using assms(1)
proof (cases rule: mutating_keys_cases)
  case 7
  from assms(2) obtain ex where "dataset_getitem (dataset s) (dataset_index s) = Inr ex"
    unfolding 7 by (cases "dataset_getitem (dataset s) (dataset_index s)")
      (simp_all add: key_branch_next_example)
  then show ?thesis
    by (simp add: 7 key_branch_next_example changed_scalars_def)
next
  case 8
  have "changed_scalars s (state_of (key_branch E A (py_ord CHR ''N'') s)) = 1"
    by (subst key_branch_next_model(3)) (simp add: changed_scalars_def key_branch_next_model(2))
  then show ?thesis by (simp only: 8)
qed (simp_all add: key_branch_S key_branch_simps changed_scalars_def)

lemma render_guard:
  "\<not> (has_render_option V \<and> has_view_control V) \<Longrightarrow>
     result_of (render E A V s) \<noteq> Inr (Rendered cam c)
     \<and> dump_image (state_of (render E A V s)) = dump_image s
     \<and> Imshow img \<notin> set (effects_of (render E A V s))"
  "has_render_option V \<and> has_view_control V \<Longrightarrow>
     result_of (render E A V s) \<noteq> Inr (NoRenderer cam)"
  by (auto simp: render_def Let_def split: option.splits sum.splits)

subsection \<open>The camera of a frame\<close>

text \<open>
  C1. Whenever a call computes a camera, its azimuth is (yaw + 90) mod 360 for the yaw
  \<open>angle_z\<close> the call leaves in the state, its elevation is 90 minus the pitch \<open>angle_y\<close>
  clipped to [-90, 90], and these are the values the extrinsic matrix is built from. A
  session in which no key was pressed (the state \<open>run\<close> builds, after its own three calls)
  has azimuth 90, elevation 0 and radius 7. Eighteen calls of the key \<open>S\<close> (+5 each) from
  yaw 0 leave yaw 90, and the last of them computes azimuth 180.
\<close>

theorem camera_azimuth_elevation:
  "(result_of (Callbacks_call E A V key s) = Inr out \<longrightarrow>
      cam_az (camera_of out) = (angle_z (state_of (Callbacks_call E A V key s)) + 90) mod 360
    \<and> cam_el (camera_of out)
        = 90 - np_clip (angle_y (state_of (Callbacks_call E A V key s))) (- 90) 90
    \<and> cam_extrinsic (camera_of out)
        = pascal_vpoint_to_extrinsics E (cam_az (camera_of out)) (cam_el (camera_of out))
            (cam_radius (camera_of out)))
   \<and> (result_of (run E A V0 V [] (init_state A n ds vo)) = Inr outs0 \<longrightarrow>
        outs0 \<noteq> [] \<and> cam_az (camera_of (last outs0)) = 90
      \<and> cam_el (camera_of (last outs0)) = 0 \<and> cam_radius (camera_of (last outs0)) = 7)
   \<and> (angle_z s = 0
        \<and> result_of (call_seq E A V (replicate 18 (py_ord CHR ''S'')) s) = Inr outs \<longrightarrow>
        angle_z (state_of (call_seq E A V (replicate 18 (py_ord CHR ''S'')) s)) = 90
      \<and> outs \<noteq> [] \<and> cam_az (camera_of (last outs)) = 180)"
proof (intro conjI impI)
  assume r: "result_of (Callbacks_call E A V key s) = Inr out"
  note c = Callbacks_call_camera [OF r]
  show "cam_az (camera_of out) = (angle_z (state_of (Callbacks_call E A V key s)) + 90) mod 360"
    by (simp add: c move_camera_def Let_def)
  show "cam_el (camera_of out)
          = 90 - np_clip (angle_y (state_of (Callbacks_call E A V key s))) (- 90) 90"
    by (simp add: c move_camera_def Let_def)
  show "cam_extrinsic (camera_of out)
          = pascal_vpoint_to_extrinsics E (cam_az (camera_of out)) (cam_el (camera_of out))
              (cam_radius (camera_of out))"
    by (simp add: c move_camera_def Let_def)
next
  let ?ks = "[py_ord CHR ''N'', py_ord CHR '' '', 0]"
  let ?s0 = "init_state A n ds vo"
  assume "result_of (run E A V0 V [] ?s0) = Inr outs0"
  then have r: "result_of (call_seq E A V0 ?ks ?s0) = Inr outs0"
    by (simp add: run_no_keys)
  from call_seq_last_camera [OF r]
  have l: "outs0 \<noteq> []"
    and c: "camera_of (last outs0) = move_camera E (state_of (call_seq E A V0 ?ks ?s0))"
    by simp_all
  have "\<forall>k \<in> set ?ks. k \<notin> py_ord ` {CHR ''F'', CHR ''D'', CHR ''S'', CHR ''A'', CHR ''H'', CHR ''G''}"
    by (simp add: py_ord_def)
  from call_seq_keeps_view [OF this, of E A V0 ?s0]
  have v: "angle_y (state_of (call_seq E A V0 ?ks ?s0)) = 90"
    "angle_z (state_of (call_seq E A V0 ?ks ?s0)) = 0"
    "radius (state_of (call_seq E A V0 ?ks ?s0)) = 7"
    by (simp_all add: init_state_def del: call_seq.simps)
  show "outs0 \<noteq> []" by (rule l)
  show "cam_az (camera_of (last outs0)) = 90"
    by (simp add: c move_camera_def Let_def v del: call_seq.simps)
  show "cam_el (camera_of (last outs0)) = 0"
    by (simp add: c move_camera_def Let_def v np_clip_def del: call_seq.simps)
  show "cam_radius (camera_of (last outs0)) = 7"
    by (simp add: c move_camera_def Let_def v np_clip_def del: call_seq.simps)
next
  let ?ks = "replicate 18 (py_ord CHR ''S'')"
  assume a: "angle_z s = 0 \<and> result_of (call_seq E A V ?ks s) = Inr outs"
  then have z: "angle_z s = 0" and r: "result_of (call_seq E A V ?ks s) = Inr outs"
    by simp_all
  from call_seq_replicate_S [OF r] z
  show y: "angle_z (state_of (call_seq E A V ?ks s)) = 90" by simp
  from call_seq_last_camera [OF r]
  have l: "outs \<noteq> []"
    and c: "camera_of (last outs) = move_camera E (state_of (call_seq E A V ?ks s))"
    by simp_all
  show "outs \<noteq> []" by (rule l)
  show "cam_az (camera_of (last outs)) = 180"
    by (simp add: c move_camera_def Let_def y)
qed



theorem camera_azimuth_elevation_witness:
  "result_of (Callbacks_call demo_env demo_args demo_vis (py_ord CHR ''D'') demo_loaded)
     = Inr (last (projr (result_of
         (call_seq demo_env demo_args demo_vis [py_ord CHR ''D''] demo_loaded))))
   \<and> cam_az (camera_of (last (projr (result_of
         (call_seq demo_env demo_args demo_vis [py_ord CHR ''D''] demo_loaded))))) = 90
   \<and> cam_el (camera_of (last (projr (result_of
         (call_seq demo_env demo_args demo_vis [py_ord CHR ''D''] demo_loaded))))) = 5
   \<and> \<not> isl (result_of (run demo_env demo_args bare_vis demo_vis [] demo_init))
   \<and> cam_az (camera_of (last (projr (result_of
         (run demo_env demo_args bare_vis demo_vis [] demo_init))))) = 90
   \<and> cam_el (camera_of (last (projr (result_of
         (run demo_env demo_args bare_vis demo_vis [] demo_init))))) = 0
   \<and> angle_z demo_loaded = 0
   \<and> \<not> isl (result_of
         (call_seq demo_env demo_args demo_vis (replicate 18 (py_ord CHR ''S'')) demo_loaded))
   \<and> angle_z (state_of
         (call_seq demo_env demo_args demo_vis (replicate 18 (py_ord CHR ''S'')) demo_loaded)) = 90
   \<and> cam_az (camera_of (last (projr (result_of
         (call_seq demo_env demo_args demo_vis (replicate 18 (py_ord CHR ''S'')) demo_loaded)))))
       = 180"
proof -
  let ?D = "Callbacks_call demo_env demo_args demo_vis (py_ord CHR ''D'') demo_loaded"
  let ?oD = "last (projr (result_of
               (call_seq demo_env demo_args demo_vis [py_ord CHR ''D''] demo_loaded)))"
  let ?R = "run demo_env demo_args bare_vis demo_vis [] demo_init"
  let ?S = "call_seq demo_env demo_args demo_vis (replicate 18 (py_ord CHR ''S'')) demo_loaded"
  have h1: "result_of ?D = Inr ?oD"
    by (simp add: demo_defs model_defs Let_def)
  have s1: "angle_z (state_of ?D) = 0" "angle_y (state_of ?D) = 85"
    by (simp_all add: demo_defs model_defs Let_def)
  have h2: "\<not> isl (result_of ?R)"
    by (simp add: demo_defs model_defs Let_def)
  then have h2': "result_of ?R = Inr (projr (result_of ?R))" by simp
  have h3: "angle_z demo_loaded = 0"
    by (simp add: demo_loaded_def)
  have "\<not> isl (result_of ?S) \<and> loaded (state_of ?S)"
  proof (rule call_seq_ok [where P = loaded])
    fix s k
    assume "loaded s" "k \<in> set (replicate 18 (py_ord CHR ''S''))"
    then show "\<not> isl (result_of (Callbacks_call demo_env demo_args demo_vis k s))
      \<and> loaded (state_of (Callbacks_call demo_env demo_args demo_vis k s))"
      by (intro demo_call_ok) simp_all
  qed (rule demo_loaded_loaded)
  then have h4: "\<not> isl (result_of ?S)" ..
  then have h4': "result_of ?S = Inr (projr (result_of ?S))" by simp
  from camera_azimuth_elevation [where E = demo_env and A = demo_args and V = demo_vis
      and key = "py_ord CHR ''D''" and s = demo_loaded and out = ?oD and ?V0.0 = bare_vis
      and n = "\<lambda>t. t" and ds = "[demo_example]" and vo = "\<lambda>v. []"
      and ?outs0.0 = "projr (result_of ?R)" and outs = "projr (result_of ?S)"]
    h1 s1 h2 h2' h3 h4 h4'
  show ?thesis
    by (simp add: np_clip_def demo_init_def del: call_seq.simps replicate.simps)
qed

subsection \<open>The clipped pitch and radius\<close>

text \<open>
  C2. The pitch is clipped to [-90, 90] (the value the code prints as the elevation; the
  elevation handed to the extrinsics, 90 minus it, lies in [0, 180]), but
  \<open>np.clip(radius, 0, radius)\<close> returns the radius it is given, whatever its sign:
  \<open>cam_radius (move_camera E s) = radius s\<close>. In
  the session that starts from the state \<open>run\<close> builds (radius 7), after the key \<open>G\<close>
  (-0.05) was pressed 141 times, every call has returned and the last frame was computed
  with the radius -1/20.
\<close>

theorem zoom_out_radius_negative:
  "\<not> isl (result_of (run demo_env demo_args bare_vis demo_vis
            (replicate 141 (py_ord CHR ''G'')) demo_init))
   \<and> radius (state_of (run demo_env demo_args bare_vis demo_vis
            (replicate 141 (py_ord CHR ''G'')) demo_init)) = - (1 / 20)
   \<and> cam_radius (camera_of (last (projr (result_of (run demo_env demo_args bare_vis demo_vis
            (replicate 141 (py_ord CHR ''G'')) demo_init))))) = - (1 / 20)
   \<and> cam_radius (move_camera E s) = radius s
   \<and> - 90 \<le> cam_angle_y (move_camera E s) \<and> cam_angle_y (move_camera E s) \<le> 90
   \<and> 0 \<le> cam_el (move_camera E s) \<and> cam_el (move_camera E s) \<le> 180"
proof -
  let ?G = "py_ord CHR ''G''"
  let ?ks = "replicate 141 ?G"
  let ?c = "call_seq demo_env demo_args demo_vis ?ks demo_loaded"
  let ?r = "run demo_env demo_args bare_vis demo_vis ?ks demo_init"
  have f: "filter (\<lambda>k. k \<in> set key_callbacks) ?ks = ?ks"
    by (simp add: key_callbacks_def py_ord_def)
  have ok: "\<not> isl (result_of ?c)"
  proof -
    have "\<not> isl (result_of ?c) \<and> loaded (state_of ?c)"
    proof (rule call_seq_ok [where P = loaded])
      fix s k
      assume "loaded s" "k \<in> set ?ks"
      then show "\<not> isl (result_of (Callbacks_call demo_env demo_args demo_vis k s))
        \<and> loaded (state_of (Callbacks_call demo_env demo_args demo_vis k s))"
        by (intro demo_call_ok) simp_all
    qed (rule demo_loaded_loaded)
    then show ?thesis ..
  qed
  then obtain outs where outs: "result_of ?c = Inr outs"
    by (cases "result_of ?c") simp_all
  have st: "state_of ?r = state_of ?c"
    using run_after_init(1) [OF demo_init_ok(1), of demo_vis ?ks]
    by (simp only: f demo_init_ok(2))
  have res: "result_of ?r = Inr (projr (result_of (call_seq demo_env demo_args bare_vis
                 [py_ord CHR ''N'', py_ord CHR '' '', 0] demo_init)) @ outs)"
    using run_after_init(2) [OF demo_init_ok(1), of demo_vis ?ks] outs
    by (simp only: f demo_init_ok(2) sum.case)
  from call_seq_replicate_field [where fld = radius, OF Callbacks_call_G_radius outs]
  have rad: "radius (state_of ?c) = - (1 / 20)"
    by (simp add: demo_loaded_def)
  from call_seq_last_camera [OF outs]
  have l: "outs \<noteq> []" and cam: "camera_of (last outs) = move_camera demo_env (state_of ?c)"
    by simp_all
  have clip: "cam_radius (move_camera E s) = radius s" for E s
    by (simp add: move_camera_def np_clip_def Let_def)
  have pitch: "- 90 \<le> cam_angle_y (move_camera E s) \<and> cam_angle_y (move_camera E s) \<le> 90
      \<and> 0 \<le> cam_el (move_camera E s) \<and> cam_el (move_camera E s) \<le> 180"
    by (simp add: move_camera_def np_clip_def Let_def)
  show ?thesis
    using res st rad l cam clip pitch
    by (simp del: call_seq.simps replicate.simps)
qed


subsection \<open>The projected keypoints\<close>

text \<open>
  C3, as amended. One step of the loop projects one 3D point with \<open>project_points\<close>,
  divides the result by the frame size \<open>(img_w, img_h) = (128, 128)\<close> and clips each
  coordinate to [-1, 1]; nothing is dropped: the result has exactly the names of the input,
  each once, and for a dictionary (distinct names) it is the input with the step applied
  to each value, in order. The frame of a call that renders holds the keypoints computed
  so from \<open>state['kpoints_3d']\<close> and the frame's camera.
\<close>

theorem keypoints_projected_and_clipped:
  "kpoints_2d_step E K Rt v
     = (np_clip (fst (project_points E v K Rt) / of_nat img_w) (- 1) 1,
        np_clip (snd (project_points E v K Rt) / of_nat img_h) (- 1) 1)
   \<and> img_w = 128 \<and> img_h = 128
   \<and> - 1 \<le> fst (kpoints_2d_step E K Rt v) \<and> fst (kpoints_2d_step E K Rt v) \<le> 1
   \<and> - 1 \<le> snd (kpoints_2d_step E K Rt v) \<and> snd (kpoints_2d_step E K Rt v) \<le> 1
   \<and> fst ` set (project_kpoints E K Rt kps []) = fst ` set kps
   \<and> distinct (map fst (project_kpoints E K Rt kps []))
   \<and> (distinct (map fst kps) \<longrightarrow>
        project_kpoints E K Rt kps []
          = map (\<lambda>(k_name, k_val). (k_name, kpoints_2d_step E K Rt k_val)) kps)
   \<and> (result_of (Callbacks_call E A V key s) = Inr (Rendered cam c) \<longrightarrow>
        (\<exists>kps3. kpoints_3d (state_of (Callbacks_call E A V key s)) = Some kps3
           \<and> kpoints_2d c
               = project_kpoints E (cam_intrinsic cam) (cam_extrinsic cam) kps3 []))"
proof (intro conjI impI)
  show "kpoints_2d_step E K Rt v
     = (np_clip (fst (project_points E v K Rt) / of_nat img_w) (- 1) 1,
        np_clip (snd (project_points E v K Rt) / of_nat img_h) (- 1) 1)"
    by (simp add: kpoints_2d_step_def split: prod.split)
  show "img_w = 128" "img_h = 128"
    by (simp_all add: img_w_def img_h_def)
  have r: "- 1 \<le> np_clip x (- 1) 1 \<and> np_clip x (- 1) 1 \<le> 1" for x :: real
    by (rule np_clip_range) simp
  show "- 1 \<le> fst (kpoints_2d_step E K Rt v)" "fst (kpoints_2d_step E K Rt v) \<le> 1"
    "- 1 \<le> snd (kpoints_2d_step E K Rt v)" "snd (kpoints_2d_step E K Rt v) \<le> 1"
    by (simp_all add: kpoints_2d_step_def r split: prod.split)
  show "fst ` set (project_kpoints E K Rt kps []) = fst ` set kps"
    by (simp add: project_kpoints_keys)
  show "distinct (map fst (project_kpoints E K Rt kps []))"
    by (rule project_kpoints_distinct_keys) simp
next
  assume "distinct (map fst kps)"
  from project_kpoints_distinct [OF this, of "[]"]
  show "project_kpoints E K Rt kps []
          = map (\<lambda>(k_name, k_val). (k_name, kpoints_2d_step E K Rt k_val)) kps"
    by simp
next
  assume r: "result_of (Callbacks_call E A V key s) = Inr (Rendered cam c)"
  show "\<exists>kps3. kpoints_3d (state_of (Callbacks_call E A V key s)) = Some kps3
           \<and> kpoints_2d c = project_kpoints E (cam_intrinsic cam) (cam_extrinsic cam) kps3 []"
  proof (cases "result_of (key_branch E A key s)")
    case None
    with r have "result_of (render E A V (state_of (key_branch E A key s))) = Inr (Rendered cam c)"
      by (simp add: Callbacks_call_unfold)
    from render_kpoints [OF this] None show ?thesis
      by (simp add: Callbacks_call_state render_keeps)
  next
    case (Some e)
    with r show ?thesis by (simp add: Callbacks_call_unfold)
  qed
qed

text \<open>
  C3 as stated fails: the division is by the frame size, not by half of it. A point
  projected to (96, 32) becomes (3/4, 1/4); divided by the half size 64 it would be
  clipped to (1, 1/2).
\<close>

theorem half_frame_division_counterexample:
  "kpoints_2d_step demo_env [] [] (0, 0, 1) = (3 / 4, 1 / 4)
   \<and> kpoints_2d_step_spec demo_env [] [] (0, 0, 1) = (1, 1 / 2)
   \<and> kpoints_2d_step demo_env [] [] (0, 0, 1) \<noteq> kpoints_2d_step_spec demo_env [] [] (0, 0, 1)"
  by (simp add: kpoints_2d_step_def kpoints_2d_step_spec_def demo_env_def img_w_def img_h_def
        np_clip_def)

theorem keypoints_projected_and_clipped_witness:
  "distinct (map fst [(''front'', (0, 0, 1)), (''back'', (1, 0, 0 :: real))])
   \<and> project_kpoints demo_env [] [] [(''front'', (0, 0, 1)), (''back'', (1, 0, 0))] []
       = [(''front'', (3 / 4, 1 / 4)), (''back'', (1, 0))]
   \<and> (\<exists>cam c. result_of (Callbacks_call demo_env demo_args demo_vis 0 demo_loaded)
                  = Inr (Rendered cam c)
        \<and> kpoints_2d c = [(''front'', (3 / 4, 1 / 4)), (''back'', (1, 0))])"
proof -
  let ?kps = "[(''front'', (0, 0, 1)), (''back'', (1, 0, 0 :: real))]"
  let ?r = "result_of (Callbacks_call demo_env demo_args demo_vis 0 demo_loaded)"
  have d: "distinct (map fst ?kps)" by simp
  have st: "kpoints_2d_step demo_env K Rt (0, 0, 1) = (3 / 4, 1 / 4)"
    "kpoints_2d_step demo_env K Rt (1, 0, 0) = (1, 0)" for K Rt
    by (simp_all add: kpoints_2d_step_def demo_env_def img_w_def img_h_def np_clip_def)
  have "\<not> isl ?r" and "\<exists>cam c. projr ?r = Rendered cam c"
    by (simp_all add: demo_defs model_defs Let_def)
  then obtain cam c where r: "?r = Inr (Rendered cam c)"
    by (cases ?r) auto
  have k3: "kpoints_3d (state_of (Callbacks_call demo_env demo_args demo_vis 0 demo_loaded))
              = Some ?kps"
    by (simp add: Callbacks_call_state key_branch_def render_keeps demo_loaded_def)
  from keypoints_projected_and_clipped [of demo_env _ _ _ ?kps demo_args demo_vis 0 demo_loaded cam c]
    d r k3 st
  show ?thesis
    by (auto simp del: project_kpoints.simps)
qed

subsection \<open>The next CAD model\<close>

text \<open>
  C7. A call of the key \<open>N\<close> from a CAD index of the catalog (0 to 9) leaves the index
  (idx + 1) mod 10, and it leaves in \<open>state['kpoints_3d']\<close> what \<open>load_yaml_file\<close> returns
  for the YAML file of the model of the new index. The index starts at 0 and no call takes
  it out of the catalog. Ten calls of \<open>N\<close> from index 0 leave the index 0.
\<close>

theorem next_model_wraps_at_ten:
  "(0 \<le> cad_idx s \<and> cad_idx s < 10 \<longrightarrow>
      cad_idx (state_of (Callbacks_call E A V (py_ord CHR ''N'') s)) = (cad_idx s + 1) mod 10)
   \<and> kpoints_3d (state_of (Callbacks_call E A V (py_ord CHR ''N'') s))
       = Some (load_yaml_file E (path_join (CAD_root A)
           (''pascal_'' @ pascal_class s @ ''_cad_''
              @ format_03d (cad_idx (state_of (Callbacks_call E A V (py_ord CHR ''N'') s)))
              @ ''.yaml'')))
   \<and> cad_idx (init_state A n ds vo) = 0
   \<and> (0 \<le> cad_idx s \<and> cad_idx s < 10 \<longrightarrow>
        0 \<le> cad_idx (state_of (Callbacks_call E A V key s))
      \<and> cad_idx (state_of (Callbacks_call E A V key s)) < 10)
   \<and> (cad_idx s = 0
        \<and> result_of (call_seq E A V (replicate 10 (py_ord CHR ''N'')) s) = Inr outs \<longrightarrow>
        cad_idx (state_of (call_seq E A V (replicate 10 (py_ord CHR ''N'')) s)) = 0)"
proof (intro conjI impI)
  assume "0 \<le> cad_idx s \<and> cad_idx s < 10"
  then show "cad_idx (state_of (Callbacks_call E A V (py_ord CHR ''N'') s)) = (cad_idx s + 1) mod 10"
    by (simp add: Callbacks_call_N_state)
next
  show "kpoints_3d (state_of (Callbacks_call E A V (py_ord CHR ''N'') s))
       = Some (load_yaml_file E (path_join (CAD_root A)
           (''pascal_'' @ pascal_class s @ ''_cad_''
              @ format_03d (cad_idx (state_of (Callbacks_call E A V (py_ord CHR ''N'') s)))
              @ ''.yaml'')))"
    by (simp only: Callbacks_call_N_state)
next
  show "cad_idx (init_state A n ds vo) = 0"
    by (simp add: init_state_def)
next
  assume a: "0 \<le> cad_idx s \<and> cad_idx s < 10"
  then show "0 \<le> cad_idx (state_of (Callbacks_call E A V key s))"
    by (cases "key = py_ord CHR ''N''")
       (simp_all add: Callbacks_call_N_state Callbacks_call_cad_idx_other)
  from a show "cad_idx (state_of (Callbacks_call E A V key s)) < 10"
    by (cases "key = py_ord CHR ''N''")
       (simp_all add: Callbacks_call_N_state Callbacks_call_cad_idx_other)
next
  assume "cad_idx s = 0
        \<and> result_of (call_seq E A V (replicate 10 (py_ord CHR ''N'')) s) = Inr outs"
  then have z: "cad_idx s = 0"
    and r: "result_of (call_seq E A V (replicate 10 (py_ord CHR ''N'')) s) = Inr outs"
    by simp_all
  from call_seq_replicate_N [OF r] z
  show "cad_idx (state_of (call_seq E A V (replicate 10 (py_ord CHR ''N'')) s)) = 0"
    by simp
qed

theorem next_model_wraps_at_ten_witness:
  "cad_idx (state_of (Callbacks_call demo_env demo_args demo_vis (py_ord CHR ''N'')
      (demo_loaded\<lparr>cad_idx := 9\<rparr>))) = 0
   \<and> cad_idx (state_of (Callbacks_call demo_env demo_args demo_vis (py_ord CHR ''N'')
      (demo_loaded\<lparr>cad_idx := 0\<rparr>))) = 1
   \<and> cad_idx (state_of (Callbacks_call demo_env demo_args demo_vis (py_ord CHR ''S'')
      (demo_loaded\<lparr>cad_idx := 0\<rparr>))) = 0
   \<and> \<not> isl (result_of (call_seq demo_env demo_args demo_vis (replicate 10 (py_ord CHR ''N''))
      (demo_loaded\<lparr>cad_idx := 0\<rparr>)))
   \<and> cad_idx (state_of (call_seq demo_env demo_args demo_vis (replicate 10 (py_ord CHR ''N''))
      (demo_loaded\<lparr>cad_idx := 0\<rparr>))) = 0"
proof -
  let ?N = "py_ord CHR ''N''"
  let ?s0 = "demo_loaded\<lparr>cad_idx := 0\<rparr>"
  let ?c = "call_seq demo_env demo_args demo_vis (replicate 10 ?N) ?s0"
  have "\<not> isl (result_of ?c) \<and> loaded (state_of ?c)"
  proof (rule call_seq_ok [where P = loaded])
    fix s k
    assume "loaded s" "k \<in> set (replicate 10 ?N)"
    then show "\<not> isl (result_of (Callbacks_call demo_env demo_args demo_vis k s))
      \<and> loaded (state_of (Callbacks_call demo_env demo_args demo_vis k s))"
      by (intro demo_call_ok) simp_all
  next
    show "loaded ?s0"
      using demo_loaded_loaded by (simp add: loaded_def)
  qed
  then have ok: "\<not> isl (result_of ?c)" ..
  then have r: "result_of ?c = Inr (projr (result_of ?c))" by simp
  have a9: "0 \<le> cad_idx (demo_loaded\<lparr>cad_idx := 9\<rparr>) \<and> cad_idx (demo_loaded\<lparr>cad_idx := 9\<rparr>) < 10"
    and a0: "0 \<le> cad_idx ?s0 \<and> cad_idx ?s0 < 10" and z: "cad_idx ?s0 = 0"
    by simp_all
  from next_model_wraps_at_ten [where s = "demo_loaded\<lparr>cad_idx := 9\<rparr>" and E = demo_env
      and A = demo_args and V = demo_vis] a9
  have w9: "cad_idx (state_of (Callbacks_call demo_env demo_args demo_vis ?N
      (demo_loaded\<lparr>cad_idx := 9\<rparr>))) = 0"
    by simp
  from next_model_wraps_at_ten [where s = ?s0 and E = demo_env and A = demo_args
      and V = demo_vis and key = "py_ord CHR ''S''" and outs = "projr (result_of ?c)"] a0 z r
  have "cad_idx (state_of (Callbacks_call demo_env demo_args demo_vis ?N ?s0)) = 1"
    and "cad_idx (state_of (Callbacks_call demo_env demo_args demo_vis (py_ord CHR ''S'') ?s0)) < 10"
    and "cad_idx (state_of ?c) = 0"
    by (simp_all del: call_seq.simps replicate.simps)
  moreover have "cad_idx (state_of (Callbacks_call demo_env demo_args demo_vis (py_ord CHR ''S'') ?s0)) = 0"
    by (simp add: Callbacks_call_cad_idx_other py_ord_def)
  ultimately show ?thesis
    using w9 ok by (simp del: call_seq.simps replicate.simps)
qed

subsection \<open>The next dataset example\<close>

text \<open>
  C10. A call of the space key with the dataset index inside the dataset selects the
  record at that index and leaves the index one higher; the first such call of a session
  (the index starts at 0; it is the second of the calls \<open>run\<close> makes) selects record 0. The
  index is compared with nothing: when it has reached the number of records, the call
  raises \<open>IndexError\<close> and leaves the state as it was, with the index still at the number
  of records, so that every later call of the key raises again.
\<close>

theorem next_example_reads_then_increments:
  "(0 \<le> dataset_index s \<and> dataset_index s < int (length (dataset s)) \<longrightarrow>
      texture_src (state_of (Callbacks_call E A V (py_ord CHR '' '') s))
        = Some (dataset s ! nat (dataset_index s))
    \<and> dataset_index (state_of (Callbacks_call E A V (py_ord CHR '' '') s))
        = dataset_index s + 1)
   \<and> dataset_index (init_state A n ds vo) = 0
   \<and> (key \<noteq> py_ord CHR '' '' \<longrightarrow>
        dataset_index (state_of (Callbacks_call E A V key s)) = dataset_index s)
   \<and> (dataset_index s = 0 \<and> dataset s \<noteq> [] \<longrightarrow>
        texture_src (state_of (Callbacks_call E A V (py_ord CHR '' '') s))
          = Some (dataset s ! 0))
   \<and> (int (length (dataset s)) \<le> dataset_index s \<longrightarrow>
        Callbacks_call E A V (py_ord CHR '' '') s = ([], Inl IndexError, s))"
proof (intro conjI impI)
  assume a: "0 \<le> dataset_index s \<and> dataset_index s < int (length (dataset s))"
  then have g: "dataset_getitem (dataset s) (dataset_index s)
                  = Inr (dataset s ! nat (dataset_index s))"
    by (simp add: dataset_getitem_in_range)
  show "texture_src (state_of (Callbacks_call E A V (py_ord CHR '' '') s))
        = Some (dataset s ! nat (dataset_index s))"
    by (simp add: Callbacks_call_state key_branch_space next_example_def g render_keeps)
  show "dataset_index (state_of (Callbacks_call E A V (py_ord CHR '' '') s))
        = dataset_index s + 1"
    by (simp add: Callbacks_call_state key_branch_space next_example_def g render_keeps)
next
  show "dataset_index (init_state A n ds vo) = 0"
    by (simp add: init_state_def)
next
  assume "key \<noteq> py_ord CHR '' ''"
  then show "dataset_index (state_of (Callbacks_call E A V key s)) = dataset_index s"
    by (rule Callbacks_call_dataset_index_other)
next
  assume "dataset_index s = 0 \<and> dataset s \<noteq> []"
  then have g: "dataset_getitem (dataset s) (dataset_index s) = Inr (dataset s ! 0)"
    by (simp add: dataset_getitem_def)
  show "texture_src (state_of (Callbacks_call E A V (py_ord CHR '' '') s)) = Some (dataset s ! 0)"
    by (simp add: Callbacks_call_state key_branch_space next_example_def g render_keeps)
next
  assume "int (length (dataset s)) \<le> dataset_index s"
  then have g: "dataset_getitem (dataset s) (dataset_index s) = Inl IndexError"
    by (rule dataset_getitem_past_end)
  show "Callbacks_call E A V (py_ord CHR '' '') s = ([], Inl IndexError, s)"
    by (simp add: Callbacks_call_def key_branch_space next_example_def g)
qed

theorem next_example_reads_then_increments_witness:
  "texture_src (state_of (Callbacks_call demo_env demo_args demo_vis (py_ord CHR '' '')
      (demo_loaded\<lparr>dataset_index := 0, texture_src := None\<rparr>))) = Some demo_example
   \<and> dataset_index (state_of (Callbacks_call demo_env demo_args demo_vis (py_ord CHR '' '')
      (demo_loaded\<lparr>dataset_index := 0, texture_src := None\<rparr>))) = 1
   \<and> dataset_index (state_of (Callbacks_call demo_env demo_args demo_vis (py_ord CHR ''S'')
      demo_loaded)) = 1
   \<and> int (length (dataset demo_loaded)) \<le> dataset_index demo_loaded
   \<and> Callbacks_call demo_env demo_args demo_vis (py_ord CHR '' '') demo_loaded
       = ([], Inl IndexError, demo_loaded)"
proof -
  let ?s0 = "demo_loaded\<lparr>dataset_index := 0, texture_src := None\<rparr>"
  have a0: "0 \<le> dataset_index ?s0 \<and> dataset_index ?s0 < int (length (dataset ?s0))"
    and z: "dataset_index ?s0 = 0 \<and> dataset ?s0 \<noteq> []"
    and d: "dataset ?s0 ! nat (dataset_index ?s0) = demo_example"
    by (simp_all add: demo_loaded_def)
  have e: "int (length (dataset demo_loaded)) \<le> dataset_index demo_loaded"
    by (simp add: demo_loaded_def)
  have k: "py_ord CHR ''S'' \<noteq> py_ord CHR '' ''"
    by (simp add: py_ord_def)
  have i: "dataset_index demo_loaded = 1"
    by (simp add: demo_loaded_def)
  from next_example_reads_then_increments [where s = ?s0 and E = demo_env and A = demo_args
      and V = demo_vis] a0 d
  have p1: "texture_src (state_of (Callbacks_call demo_env demo_args demo_vis (py_ord CHR '' '') ?s0))
      = Some demo_example"
    "dataset_index (state_of (Callbacks_call demo_env demo_args demo_vis (py_ord CHR '' '') ?s0)) = 1"
    by simp_all
  from next_example_reads_then_increments [where s = demo_loaded and E = demo_env
      and A = demo_args and V = demo_vis and key = "py_ord CHR ''S''"] e k i
  have p2: "dataset_index (state_of (Callbacks_call demo_env demo_args demo_vis (py_ord CHR ''S'')
      demo_loaded)) = 1"
    "Callbacks_call demo_env demo_args demo_vis (py_ord CHR '' '') demo_loaded
       = ([], Inl IndexError, demo_loaded)"
    by simp_all
  from p1 p2 e show ?thesis
    by (simp only: simp_thms)
qed

subsection \<open>The dump of the last frame\<close>

text \<open>
  C6, as amended. A call of the key \<open>X\<close> never changes yaw, pitch or radius. In a state
  that holds a composited frame (\<open>state['dump_image']\<close> is set), it makes the dump
  directory, writes that frame to the file
  \<open>{dump_id:03d}_el_{el:03d}_az_{az:03d}_rad_{rad:03d}.png\<close> of that directory, where
  el = 90 - pitch, az = (yaw + 90) mod 360 and rad = int(radius) are taken from the state,
  and leaves the counter one higher and a frame in the state; so a second call of \<open>X\<close>
  writes a file too, and from the counter 0 the names of the two files start with
  \<open>000\<close> and \<open>001\<close>. In a state without a frame the call raises \<open>KeyError\<close> after making
  the directory: it writes nothing and leaves the counter as it was.
\<close>

theorem dump_frame_writes_and_counts:
  "angle_y (state_of (Callbacks_call E A V (py_ord CHR ''X'') s)) = angle_y s
   \<and> angle_z (state_of (Callbacks_call E A V (py_ord CHR ''X'') s)) = angle_z s
   \<and> radius (state_of (Callbacks_call E A V (py_ord CHR ''X'') s)) = radius s
   \<and> (dump_image s = Some img \<longrightarrow>
        take 3 (effects_of (Callbacks_call E A V (py_ord CHR ''X'') s))
          = [Mkdir (dump_dir A),
             Imwrite (path_join (dump_dir A)
               (format_03d (dump_id s) @ ''_el_'' @ format_03d (90 - angle_y s) @ ''_az_''
                  @ format_03d ((angle_z s + 90) mod 360) @ ''_rad_''
                  @ format_03d (py_int (radius s)) @ ''.png'')) img,
             PrintSaved (path_join (dump_dir A)
               (format_03d (dump_id s) @ ''_el_'' @ format_03d (90 - angle_y s) @ ''_az_''
                  @ format_03d ((angle_z s + 90) mod 360) @ ''_rad_''
                  @ format_03d (py_int (radius s)) @ ''.png''))]
      \<and> dump_id (state_of (Callbacks_call E A V (py_ord CHR ''X'') s)) = dump_id s + 1
      \<and> dump_image (state_of (Callbacks_call E A V (py_ord CHR ''X'') s)) \<noteq> None)
   \<and> (dump_image s = Some img \<and> dump_id s = 0 \<longrightarrow>
        (\<exists>img2.
           take 3 (effects_of (Callbacks_call E A V (py_ord CHR ''X'') s))
             = [Mkdir (dump_dir A),
                Imwrite (path_join (dump_dir A)
                  (''000'' @ ''_el_'' @ format_03d (90 - angle_y s) @ ''_az_''
                     @ format_03d ((angle_z s + 90) mod 360) @ ''_rad_''
                     @ format_03d (py_int (radius s)) @ ''.png'')) img,
                PrintSaved (path_join (dump_dir A)
                  (''000'' @ ''_el_'' @ format_03d (90 - angle_y s) @ ''_az_''
                     @ format_03d ((angle_z s + 90) mod 360) @ ''_rad_''
                     @ format_03d (py_int (radius s)) @ ''.png''))]
         \<and> take 3 (effects_of (Callbacks_call E A V (py_ord CHR ''X'')
                (state_of (Callbacks_call E A V (py_ord CHR ''X'') s))))
             = [Mkdir (dump_dir A),
                Imwrite (path_join (dump_dir A)
                  (''001'' @ ''_el_'' @ format_03d (90 - angle_y s) @ ''_az_''
                     @ format_03d ((angle_z s + 90) mod 360) @ ''_rad_''
                     @ format_03d (py_int (radius s)) @ ''.png'')) img2,
                PrintSaved (path_join (dump_dir A)
                  (''001'' @ ''_el_'' @ format_03d (90 - angle_y s) @ ''_az_''
                     @ format_03d ((angle_z s + 90) mod 360) @ ''_rad_''
                     @ format_03d (py_int (radius s)) @ ''.png''))]))
   \<and> (dump_image s = None \<longrightarrow>
        Callbacks_call E A V (py_ord CHR ''X'') s
          = ([Mkdir (dump_dir A)], Inl (KeyError ''dump_image''), s))"
proof -
  let ?X = "py_ord CHR ''X''"
  let ?s1 = "state_of (Callbacks_call E A V ?X s)"
  have x: "?X \<notin> py_ord ` {CHR ''F'', CHR ''D'', CHR ''S'', CHR ''A'', CHR ''H'', CHR ''G''}"
    by (simp add: py_ord_def)
  note view = Callbacks_call_keeps_view [OF x, of E A V s]
  have first: "take 3 (effects_of (Callbacks_call E A V ?X t))
          = [Mkdir (dump_dir A),
             Imwrite (path_join (dump_dir A)
               (format_03d (dump_id t) @ ''_el_'' @ format_03d (90 - angle_y t) @ ''_az_''
                  @ format_03d ((angle_z t + 90) mod 360) @ ''_rad_''
                  @ format_03d (py_int (radius t)) @ ''.png'')) i,
             PrintSaved (path_join (dump_dir A)
               (format_03d (dump_id t) @ ''_el_'' @ format_03d (90 - angle_y t) @ ''_az_''
                  @ format_03d ((angle_z t + 90) mod 360) @ ''_rad_''
                  @ format_03d (py_int (radius t)) @ ''.png''))]"
    and count: "dump_id (state_of (Callbacks_call E A V ?X t)) = dump_id t + 1"
    and kept: "dump_image (state_of (Callbacks_call E A V ?X t)) \<noteq> None"
    if "dump_image t = Some i" for t i
  proof -
    show "take 3 (effects_of (Callbacks_call E A V ?X t))
          = [Mkdir (dump_dir A),
             Imwrite (path_join (dump_dir A)
               (format_03d (dump_id t) @ ''_el_'' @ format_03d (90 - angle_y t) @ ''_az_''
                  @ format_03d ((angle_z t + 90) mod 360) @ ''_rad_''
                  @ format_03d (py_int (radius t)) @ ''.png'')) i,
             PrintSaved (path_join (dump_dir A)
               (format_03d (dump_id t) @ ''_el_'' @ format_03d (90 - angle_y t) @ ''_az_''
                  @ format_03d ((angle_z t + 90) mod 360) @ ''_rad_''
                  @ format_03d (py_int (radius t)) @ ''.png''))]"
      by (simp add: Callbacks_call_X_Some(1) [OF that])
    show "dump_id (state_of (Callbacks_call E A V ?X t)) = dump_id t + 1"
      by (simp add: Callbacks_call_X_Some(2) [OF that] render_keeps)
    show "dump_image (state_of (Callbacks_call E A V ?X t)) \<noteq> None"
      by (simp add: Callbacks_call_X_Some(2) [OF that] render_dump_image that)
  qed
  have two: "\<exists>img2.
           take 3 (effects_of (Callbacks_call E A V ?X s))
             = [Mkdir (dump_dir A),
                Imwrite (path_join (dump_dir A)
                  (''000'' @ ''_el_'' @ format_03d (90 - angle_y s) @ ''_az_''
                     @ format_03d ((angle_z s + 90) mod 360) @ ''_rad_''
                     @ format_03d (py_int (radius s)) @ ''.png'')) img,
                PrintSaved (path_join (dump_dir A)
                  (''000'' @ ''_el_'' @ format_03d (90 - angle_y s) @ ''_az_''
                     @ format_03d ((angle_z s + 90) mod 360) @ ''_rad_''
                     @ format_03d (py_int (radius s)) @ ''.png''))]
         \<and> take 3 (effects_of (Callbacks_call E A V ?X ?s1))
             = [Mkdir (dump_dir A),
                Imwrite (path_join (dump_dir A)
                  (''001'' @ ''_el_'' @ format_03d (90 - angle_y s) @ ''_az_''
                     @ format_03d ((angle_z s + 90) mod 360) @ ''_rad_''
                     @ format_03d (py_int (radius s)) @ ''.png'')) img2,
                PrintSaved (path_join (dump_dir A)
                  (''001'' @ ''_el_'' @ format_03d (90 - angle_y s) @ ''_az_''
                     @ format_03d ((angle_z s + 90) mod 360) @ ''_rad_''
                     @ format_03d (py_int (radius s)) @ ''.png''))]"
    if d: "dump_image s = Some img" and z: "dump_id s = 0"
  proof -
    from kept [OF d] obtain img2 where d1: "dump_image ?s1 = Some img2"
      by auto
    from count [OF d] z have c1: "dump_id ?s1 = 1" by simp
    from first [OF d1] first [OF d] show ?thesis
      by (intro exI [of _ img2]) (simp only: c1 z view format_03d_small simp_thms)
  qed
  show ?thesis
    using view first count kept two Callbacks_call_X_None [of s E A V]
    by (intro conjI impI; (elim conjE)?) blast+
qed

text \<open>
  C6 as stated fails in a state without a frame. The state \<open>run\<close> builds has no
  \<open>'dump_image'\<close>, and its three calls, made on a visualizer without a window, return
  before a frame is composited: if \<open>X\<close> is the first key pressed, the call raises
  \<open>KeyError\<close>, no file is written and the counter stays 0.
\<close>

theorem dump_without_frame_counterexample:
  "effects_of (run demo_env demo_args bare_vis demo_vis [py_ord CHR ''X''] demo_init)
     = [Mkdir ''/tmp'']
   \<and> result_of (run demo_env demo_args bare_vis demo_vis [py_ord CHR ''X''] demo_init)
     = Inl (KeyError ''dump_image'')
   \<and> dump_id (state_of (run demo_env demo_args bare_vis demo_vis [py_ord CHR ''X''] demo_init))
     = 0"
  by (simp add: demo_defs model_defs Let_def)

theorem dump_frame_writes_and_counts_witness:
  "dump_image (demo_loaded\<lparr>dump_image := Some [[(1, 2, 3)]]\<rparr>) = Some [[(1, 2, 3)]]
   \<and> dump_id (demo_loaded\<lparr>dump_image := Some [[(1, 2, 3)]]\<rparr>) = 0
   \<and> take 3 (effects_of (Callbacks_call demo_env demo_args demo_vis (py_ord CHR ''X'')
         (demo_loaded\<lparr>dump_image := Some [[(1, 2, 3)]]\<rparr>)))
       = [Mkdir ''/tmp'', Imwrite ''/tmp/000_el_000_az_090_rad_007.png'' [[(1, 2, 3)]],
          PrintSaved ''/tmp/000_el_000_az_090_rad_007.png'']
   \<and> dump_id (state_of (Callbacks_call demo_env demo_args demo_vis (py_ord CHR ''X'')
         (demo_loaded\<lparr>dump_image := Some [[(1, 2, 3)]]\<rparr>))) = 1
   \<and> (\<exists>img2. take 3 (effects_of (Callbacks_call demo_env demo_args demo_vis (py_ord CHR ''X'')
         (state_of (Callbacks_call demo_env demo_args demo_vis (py_ord CHR ''X'')
            (demo_loaded\<lparr>dump_image := Some [[(1, 2, 3)]]\<rparr>)))))
       = [Mkdir ''/tmp'', Imwrite ''/tmp/001_el_000_az_090_rad_007.png'' img2,
          PrintSaved ''/tmp/001_el_000_az_090_rad_007.png''])
   \<and> dump_image demo_loaded = None
   \<and> Callbacks_call demo_env demo_args demo_vis (py_ord CHR ''X'') demo_loaded
       = ([Mkdir ''/tmp''], Inl (KeyError ''dump_image''), demo_loaded)"
proof -
  let ?s = "demo_loaded\<lparr>dump_image := Some [[(1, 2, 3)]]\<rparr>"
  have h: "dump_image ?s = Some [[(1, 2, 3)]]" "dump_id ?s = 0" "dump_image demo_loaded = None"
    by (simp_all add: demo_loaded_def)
  have v: "angle_y ?s = 90" "angle_z ?s = 0" "radius ?s = 7" "dump_dir demo_args = ''/tmp''"
    by (simp_all add: demo_loaded_def demo_args_def)
  have f: "format_03d 0 = ''000''" "format_03d 90 = ''090''" "format_03d 7 = ''007''"
    "py_int 7 = 7"
    by (simp_all add: format_03d_def zfill_def digits10.simps digit_char_def numeral_3_eq_3
          py_int_def)
  from dump_frame_writes_and_counts [where s = ?s and img = "[[(1, 2, 3)]]" and E = demo_env
      and A = demo_args and V = demo_vis] h(1,2)
  have a: "take 3 (effects_of (Callbacks_call demo_env demo_args demo_vis (py_ord CHR ''X'') ?s))
       = [Mkdir ''/tmp'', Imwrite ''/tmp/000_el_000_az_090_rad_007.png'' [[(1, 2, 3)]],
          PrintSaved ''/tmp/000_el_000_az_090_rad_007.png'']"
    and b: "dump_id (state_of (Callbacks_call demo_env demo_args demo_vis (py_ord CHR ''X'') ?s)) = 1"
    and c: "\<exists>img2. take 3 (effects_of (Callbacks_call demo_env demo_args demo_vis (py_ord CHR ''X'')
         (state_of (Callbacks_call demo_env demo_args demo_vis (py_ord CHR ''X'') ?s))))
       = [Mkdir ''/tmp'', Imwrite ''/tmp/001_el_000_az_090_rad_007.png'' img2,
          PrintSaved ''/tmp/001_el_000_az_090_rad_007.png'']"
    by (simp_all add: v f path_join_def)
  from dump_frame_writes_and_counts [where s = demo_loaded and E = demo_env
      and A = demo_args and V = demo_vis] h(3)
  have d: "Callbacks_call demo_env demo_args demo_vis (py_ord CHR ''X'') demo_loaded
       = ([Mkdir ''/tmp''], Inl (KeyError ''dump_image''), demo_loaded)"
    by (simp add: v)
  from h a b c d show ?thesis
    by (simp only: simp_thms)
qed

subsection \<open>The masked image and the tiled frame\<close>

text \<open>
  C5. In every call that renders a frame, the silhouette mask marks the pixels of the
  captured normal image (as \<open>uint8\<close>) that are exactly (0, 0, 0); the synthesized image is
  the image of what the network returns for the sketch, the central reference and the
  warped planes; the masked image has the shape of the synthesized one, is white
  (255, 255, 255) at every pixel the mask marks and equals the synthesized image at every
  other pixel; and the frame shown and stored in \<open>state['dump_image']\<close> has, in each row,
  the row of the sketch (the image of the normalized LAB normal image), then of the
  central reference, then of the masked synthesis, then of the source image of the
  selected texture example.
\<close>

theorem masked_synthesis_and_tiled_frame:
  assumes "result_of (Callbacks_call E A V key s) = Inr (Rendered cam c)"
  shows "object_mask c
           = background_mask (to_uint8_image
               (capture V (focal (state_of (Callbacks_call E A V key s))) (cam_extrinsic cam)
                  (geometries (state_of (Callbacks_call E A V key s)))))
       \<and> length (net_masked c) = length (net_raw c)
       \<and> (\<forall>i < length (net_raw c). length (net_masked c ! i) = length (net_raw c ! i)
            \<and> (\<forall>j < length (net_raw c ! i).
                  (object_mask c ! i ! j \<longrightarrow> net_masked c ! i ! j = (255, 255, 255))
                \<and> (\<not> object_mask c ! i ! j \<longrightarrow> net_masked c ! i ! j = net_raw c ! i ! j)))
       \<and> length (out_image c) = length (sketch_img c)
       \<and> (\<forall>i < length (sketch_img c).
             out_image c ! i
               = sketch_img c ! i @ central_img c ! i @ net_masked c ! i @ source_img c ! i)
       \<and> (\<exists>tex. texture_src (state_of (Callbacks_call E A V key s)) = Some tex
             \<and> central_img c = to_image E (src_central tex) (LAB A)
             \<and> source_img c = to_image E (src_image tex) (LAB A))
       \<and> dump_image (state_of (Callbacks_call E A V key s)) = Some (out_image c)
       \<and> Imshow (out_image c) \<in> set (effects_of (Callbacks_call E A V key s))
       \<and> sketch_img c
           = to_image E (normalize_to_tensor E (cvtColor_RGB2LAB E (to_uint8_image
               (capture V (focal (state_of (Callbacks_call E A V key s))) (cam_extrinsic cam)
                  (geometries (state_of (Callbacks_call E A V key s))))))) (LAB A)
       \<and> (\<exists>tex. texture_src (state_of (Callbacks_call E A V key s)) = Some tex
             \<and> net_raw c
                 = to_image E
                     (net (state_of (Callbacks_call E A V key s))
                        (normalize_to_tensor E (cvtColor_RGB2LAB E (to_uint8_image
                           (capture V (focal (state_of (Callbacks_call E A V key s)))
                              (cam_extrinsic cam)
                              (geometries (state_of (Callbacks_call E A V key s))))))
                         @ src_central tex
                         @ warped_planes E A (state_of (Callbacks_call E A V key s)) cam
                             (kpoints_2d c) tex))
                     (LAB A))"
proof -
  from Callbacks_call_Rendered [OF assms] obtain s1 where
    r: "result_of (render E A V s1) = Inr (Rendered cam c)"
    and st: "state_of (Callbacks_call E A V key s) = state_of (render E A V s1)"
    and ef: "set (effects_of (render E A V s1)) \<subseteq> set (effects_of (Callbacks_call E A V key s))"
    by blast
  let ?s2 = "state_of (render E A V s1)"
  note cf = render_Rendered(1) [OF r]
  note parts = composite_frame_Inr [OF cf]
  note m = mask_artifacts_Inr [OF parts(2)]
  note t = np_concatenate_axis1_four [OF parts(3)]
  have "object_mask c
          = background_mask (to_uint8_image
              (capture V (focal ?s2) (cam_extrinsic cam) (geometries ?s2)))"
    using parts(1) by (simp add: render_keeps)
  moreover have "length (net_masked c) = length (net_raw c)"
    by (rule m(1))
  moreover have "\<forall>i < length (net_raw c). length (net_masked c ! i) = length (net_raw c ! i)
            \<and> (\<forall>j < length (net_raw c ! i).
                  (object_mask c ! i ! j \<longrightarrow> net_masked c ! i ! j = (255, 255, 255))
                \<and> (\<not> object_mask c ! i ! j \<longrightarrow> net_masked c ! i ! j = net_raw c ! i ! j))"
    using m(2) m(3) by (simp add: white_def)
  moreover have "length (out_image c) = length (sketch_img c)"
    by (rule t(1))
  moreover have "\<forall>i < length (sketch_img c).
             out_image c ! i
               = sketch_img c ! i @ central_img c ! i @ net_masked c ! i @ source_img c ! i"
    using t(2) by simp
  moreover have "\<exists>tex. texture_src ?s2 = Some tex
             \<and> central_img c = to_image E (src_central tex) (LAB A)
             \<and> source_img c = to_image E (src_image tex) (LAB A)"
    using parts(5) by simp
  moreover have "dump_image ?s2 = Some (out_image c)"
    by (rule render_Rendered(2) [OF r])
  moreover have "Imshow (out_image c) \<in> set (effects_of (Callbacks_call E A V key s))"
    using render_Rendered(3) [OF r] ef by blast
  moreover have "sketch_img c
           = to_image E (normalize_to_tensor E (cvtColor_RGB2LAB E (to_uint8_image
               (capture V (focal ?s2) (cam_extrinsic cam) (geometries ?s2))))) (LAB A)"
    using parts(4) by (simp add: render_keeps)
  moreover have "\<exists>tex. texture_src ?s2 = Some tex
             \<and> net_raw c
                 = to_image E
                     (net ?s2
                        (normalize_to_tensor E (cvtColor_RGB2LAB E (to_uint8_image
                           (capture V (focal ?s2) (cam_extrinsic cam) (geometries ?s2))))
                         @ src_central tex
                         @ warped_planes E A ?s2 cam (kpoints_2d c) tex))
                     (LAB A)"
    using composite_frame_synthesis [OF cf]
    by (simp add: render_keeps warped_planes_def)
  ultimately show ?thesis
    by (simp only: st)
qed



theorem masked_synthesis_and_tiled_frame_witness:
  "(\<exists>cam c. result_of (Callbacks_call tile_env demo_args tile_vis 0 tile_state)
               = Inr (Rendered cam c)
      \<and> object_mask c = [[True, False]]
      \<and> sketch_img c = [[(0, 0, 0), (51, 51, 51)]]
      \<and> central_img c = [[(7, 7, 7), (8, 8, 8)]]
      \<and> net_raw c = [[(7, 7, 7), (59, 59, 59)]]
      \<and> net_masked c = [[(255, 255, 255), (59, 59, 59)]]
      \<and> source_img c = [[(9, 9, 9), (10, 10, 10)]]
      \<and> out_image c
          = [[(0, 0, 0), (51, 51, 51), (7, 7, 7), (8, 8, 8),
              (255, 255, 255), (59, 59, 59), (9, 9, 9), (10, 10, 10)]])
   \<and> dump_image (state_of (Callbacks_call tile_env demo_args tile_vis 0 tile_state))
       = Some [[(0, 0, 0), (51, 51, 51), (7, 7, 7), (8, 8, 8),
                (255, 255, 255), (59, 59, 59), (9, 9, 9), (10, 10, 10)]]"
proof -
  let ?t = "Callbacks_call tile_env demo_args tile_vis 0 tile_state"
  note tile_defs = tile_env_def tile_vis_def tile_example_def tile_state_def
  have "\<not> isl (result_of ?t)" and "\<exists>cam c. projr (result_of ?t) = Rendered cam c"
    by (simp_all add: tile_defs demo_defs model_defs Let_def)
  then obtain cam c where r: "result_of ?t = Inr (Rendered cam c)"
    by (cases "result_of ?t") auto
  note th = masked_synthesis_and_tiled_frame [OF r]
  have tex: "texture_src (state_of ?t) = Some tile_example"
    by (simp add: Callbacks_call_0 render_keeps tile_state_def)
  have buf: "capture tile_vis f Rt g = [[(0, 0, 0), (1 / 5, 1 / 5, 1 / 5)]]" for f Rt g
    by (simp add: tile_vis_def)
  have u8: "to_uint8_image [[(0, 0, 0), (1 / 5, 1 / 5, 1 / 5)]] = [[(0, 0, 0), (51, 51, 51)]]"
    by (simp add: to_uint8_image_def float_to_uint8_def py_int_def)
  have lab: "LAB demo_args" "cvtColor_RGB2LAB tile_env img = img" for img
    by (simp_all add: demo_args_def tile_env_def demo_env_def)
  have nt: "normalize_to_tensor tile_env [[(0, 0, 0), (51, 51, 51)]] = [[[0, 51]]]"
    by (simp add: tile_env_def)
  have ti: "to_image tile_env [[[a, b]]] l
      = [[(word_of_int \<lfloor>a\<rfloor>, word_of_int \<lfloor>a\<rfloor>, word_of_int \<lfloor>a\<rfloor>),
          (word_of_int \<lfloor>b\<rfloor>, word_of_int \<lfloor>b\<rfloor>, word_of_int \<lfloor>b\<rfloor>)]]" for a b l
    by (simp add: tile_env_def)
  have wp: "warped_planes tile_env demo_args st cam k tile_example = []" for st k
    by (simp add: warped_planes_def tile_env_def demo_env_def tile_example_def split: prod.split)
  have nets: "net (state_of ?t) = net tile_state"
    by (simp add: Callbacks_call_0 render_keeps_net)
  have netv: "net tile_state [[[0, 51]], [[7, 8]]] = [[[7, 59]]]"
    by (simp add: tile_state_def)
  have tx: "src_central tile_example = [[[7, 8]]]" "src_image tile_example = [[[9, 10]]]"
    by (simp_all add: tile_example_def)
  from th have m: "object_mask c = [[True, False]]"
    by (simp add: buf u8 background_mask_def)
  from th have sk: "sketch_img c = [[(0, 0, 0), (51, 51, 51)]]"
    by (simp add: buf u8 lab nt ti)
  from th tex have ce: "central_img c = [[(7, 7, 7), (8, 8, 8)]]"
    and so: "source_img c = [[(9, 9, 9), (10, 10, 10)]]"
    by (simp_all add: tx ti)
  from th tex have raw: "net_raw c = [[(7, 7, 7), (59, 59, 59)]]"
    by (simp add: buf u8 lab nt wp nets netv ti tx)
  from th have l1: "length (net_masked c) = 1"
    and l2: "length (net_masked c ! 0) = 2"
    and p0: "net_masked c ! 0 ! 0 = (255, 255, 255)"
    and p1: "net_masked c ! 0 ! 1 = (59, 59, 59)"
    by (simp_all add: raw m)
  have mk: "net_masked c = [[(255, 255, 255), (59, 59, 59)]]"
    using list_of_length_1 [OF l1] list_of_length_2 [OF l2] p0 p1 by simp
  from th have o1: "length (out_image c) = 1"
    and o2: "out_image c ! 0
               = [(0, 0, 0), (51, 51, 51), (7, 7, 7), (8, 8, 8),
                  (255, 255, 255), (59, 59, 59), (9, 9, 9), (10, 10, 10)]"
    by (simp_all add: sk ce so mk)
  have out: "out_image c
          = [[(0, 0, 0), (51, 51, 51), (7, 7, 7), (8, 8, 8),
              (255, 255, 255), (59, 59, 59), (9, 9, 9), (10, 10, 10)]]"
    using list_of_length_1 [OF o1] o2 by simp
  from th have d: "dump_image (state_of ?t) = Some (out_image c)"
    by simp
  from r m sk ce raw mk so out d show ?thesis
    by (intro conjI exI [of _ cam] exI [of _ c]) (simp_all only: )
qed

subsection \<open>A key without a branch\<close>



subsection \<open>The key 0\<close>



subsection \<open>The events that change the state\<close>




end
